theory Spec2Isabelle
  imports Complex_Main "HOL-Library.Sublist"
begin

chapter \<open>ARQV30 Enhanced: the browser scripts, the Service Worker and the schema\<close>

text \<open>
  The repository's own code is the front end of a market-analysis application: a form
  controller (\<^verbatim>\<open>main.js\<close>), a synchronous and an asynchronous analysis manager
  (\<^verbatim>\<open>analysis.js\<close>), an upload manager, a Service Worker and one SQL migration. Each
  part is embedded below as it is written: a class is a record of its fields, a JSON value
  is a datatype, an exception is the left summand of a sum, the browser's storage, timers,
  caches and the network are explicit state or explicit inputs.

  Strings are HOL strings holding the UTF-8 bytes of the script's text; a character
  outside ASCII is written byte by byte (\<open>CHR 0xC3, CHR 0xA3\<close> for a-tilde).
\<close>

section \<open>Strings and numbers\<close>

definition digit_char :: "nat \<Rightarrow> char" where
  "digit_char d = ''0123456789'' ! d"

text \<open>The decimal numeral of a non-negative integer, as string concatenation prints it.\<close>

fun digits :: "nat \<Rightarrow> string" where
  "digits n = (if n < 10 then [digit_char n] else digits (n div 10) @ [digit_char (n mod 10)])"

declare digits.simps [simp del]

text \<open>\<^verbatim>\<open>s.includes(t)\<close>: \<open>t\<close> occurs in \<open>s\<close> as a contiguous run.\<close>

fun str_includes :: "string \<Rightarrow> string \<Rightarrow> bool" where
  "str_includes [] t = (t = [])"
| "str_includes (c # s) t = (prefix t (c # s) \<or> str_includes s t)"

text \<open>\<^verbatim>\<open>xs.join(sep)\<close> on a list of strings.\<close>

fun join_str :: "string \<Rightarrow> string list \<Rightarrow> string" where
  "join_str sep [] = []"
| "join_str sep [x] = x"
| "join_str sep (x # y # ys) = x @ sep @ join_str sep (y # ys)"

section \<open>HTTP requests\<close>

datatype http_method = GET | POST

datatype request = Request http_method string

section \<open>Session identifier (analysis.js, both managers)\<close>

text \<open>
  \<^verbatim>\<open>window.localStorage\<close> is a map from keys to strings; \<^verbatim>\<open>getItem\<close> of a missing key
  is \<^verbatim>\<open>null\<close>, here \<open>None\<close>. \<^verbatim>\<open>Date.now()\<close> and
  \<^verbatim>\<open>Math.random().toString(36).substr(2, 9)\<close> are inputs of the call.
\<close>

type_synonym storage = "string \<rightharpoonup> string"

definition AnalysisManager_getSessionId :: "nat \<Rightarrow> string \<Rightarrow> storage \<Rightarrow> string \<times> storage" where
  "AnalysisManager_getSessionId now rnd localStorage =
     (case localStorage ''arqv30_session_id'' of
        Some (c # cs) \<Rightarrow> (c # cs, localStorage)
      | _ \<Rightarrow>
          (let sessionId = ''session_'' @ digits now @ ''_'' @ rnd
           in (sessionId, localStorage(''arqv30_session_id'' \<mapsto> sessionId))))"

definition AsyncAnalysisManager_getSessionId :: "nat \<Rightarrow> string \<Rightarrow> storage \<Rightarrow> string \<times> storage" where
  "AsyncAnalysisManager_getSessionId now rnd localStorage =
     (case localStorage ''arqv30_session_id'' of
        Some (c # cs) \<Rightarrow> (c # cs, localStorage)
      | _ \<Rightarrow>
          (let sessionId = ''session_'' @ digits now @ ''_'' @ rnd
           in (sessionId, localStorage(''arqv30_session_id'' \<mapsto> sessionId))))"

section \<open>File sizes (main.js and the upload manager)\<close>

text \<open>
  \<^verbatim>\<open>formatFileSize\<close> computes with IEEE doubles. \<^verbatim>\<open>Math.log\<close> and \<^verbatim>\<open>Math.pow\<close> are
  approximated by the engine and \<open>/\<close> rounds to the nearest double, so the three are
  inputs of the model. \<open>accurate\<close> is what the index computation relies on: the logarithm
  of a number from 1 on, and the quotient of a non-negative by a positive number, are
  within one unit in the last place of the exact result (a relative error of at most
  \<open>2 ^ -52\<close>), as they are in the engines. \<^verbatim>\<open>toFixed(2)\<close> rounds the value it is given
  to hundredths, the larger candidate on a tie; \<^verbatim>\<open>parseFloat\<close> and the concatenation
  then print the hundredths without trailing zeros. An index outside the array reads
  \<^verbatim>\<open>undefined\<close>, printed as such.
\<close>

record double_arithmetic =
  Math_log :: "real \<Rightarrow> real"
  Math_pow :: "real \<Rightarrow> real \<Rightarrow> real"
  divide :: "real \<Rightarrow> real \<Rightarrow> real"

definition accurate :: "double_arithmetic \<Rightarrow> bool" where
  "accurate fp \<longleftrightarrow>
     (\<forall>x. 1 \<le> x \<longrightarrow> \<bar>Math_log fp x - ln x\<bar> \<le> ln x / 2 ^ 52) \<and>
     (\<forall>a b. 0 \<le> a \<longrightarrow> 0 < b \<longrightarrow> \<bar>divide fp a b - a / b\<bar> \<le> (a / b) / 2 ^ 52)"

text \<open>Arithmetic without rounding.\<close>

definition exact_arithmetic :: double_arithmetic where
  "exact_arithmetic = \<lparr>Math_log = ln, Math_pow = (powr), divide = (/)\<rparr>"

text \<open>
  Arithmetic that differs from the exact one in a single value: the logarithm of
  \<open>2 ^ 50 - 1\<close> is that of \<open>2 ^ 50\<close>. The two logarithms differ by less than \<open>2 ^ -50\<close>,
  and the doubles near them are \<open>2 ^ -47\<close> apart.
\<close>

definition rounded_arithmetic :: double_arithmetic where
  "rounded_arithmetic =
     \<lparr>Math_log = (\<lambda>x. if x = 2 ^ 50 - 1 then ln (2 ^ 50) else ln x),
      Math_pow = (powr), divide = (/)\<rparr>"

definition toFixed2 :: "real \<Rightarrow> nat" where
  "toFixed2 x = nat \<lfloor>100 * x + 1 / 2\<rfloor>"

definition parseFloat_toString :: "nat \<Rightarrow> string" where
  "parseFloat_toString h =
     digits (h div 100) @
     (if h mod 100 = 0 then []
      else if h mod 10 = 0 then ''.'' @ [digit_char (h mod 100 div 10)]
      else ''.'' @ [digit_char (h mod 100 div 10), digit_char (h mod 10)])"

text \<open>\<^verbatim>\<open>Math.floor(Math.log(bytes) / Math.log(k))\<close> with \<open>k = 1024\<close>.\<close>

definition unit_index :: "double_arithmetic \<Rightarrow> nat \<Rightarrow> int" where
  "unit_index fp bytes = \<lfloor>divide fp (Math_log fp (real bytes)) (Math_log fp 1024)\<rfloor>"

definition index_or_undefined :: "string list \<Rightarrow> int \<Rightarrow> string" where
  "index_or_undefined sizes i =
     (if 0 \<le> i \<and> nat i < length sizes then sizes ! nat i else ''undefined'')"

definition formatFileSize :: "double_arithmetic \<Rightarrow> string list \<Rightarrow> nat \<Rightarrow> string" where
  "formatFileSize fp sizes bytes =
     (if bytes = 0 then ''0 Bytes''
      else let i = unit_index fp bytes
           in parseFloat_toString
                (toFixed2 (divide fp (real bytes) (Math_pow fp 1024 (real_of_int i))))
              @ '' '' @ index_or_undefined sizes i)"

definition ARQVApp_sizes :: "string list" where
  "ARQVApp_sizes = [''Bytes'', ''KB'', ''MB'', ''GB'']"

definition ARQVApp_formatFileSize :: "double_arithmetic \<Rightarrow> nat \<Rightarrow> string" where
  "ARQVApp_formatFileSize fp = formatFileSize fp ARQVApp_sizes"

definition FileUploadManager_sizes :: "string list" where
  "FileUploadManager_sizes = [''Bytes'', ''KB'', ''MB'', ''GB'', ''TB'']"

definition FileUploadManager_formatFileSize :: "double_arithmetic \<Rightarrow> nat \<Rightarrow> string" where
  "FileUploadManager_formatFileSize fp = formatFileSize fp FileUploadManager_sizes"

section \<open>JSON values\<close>

text \<open>
  The analysis result and the task status are parsed JSON. Numbers are restricted to
  integers of magnitude below \<open>10 ^ 21\<close>, which print as plain decimals. The members of
  an object are listed in the order \<^verbatim>\<open>Object.entries\<close> yields them. \<open>JUndefined\<close> is
  what reading a missing member gives.
\<close>

datatype jsval =
    JUndefined
  | JNull
  | JBool bool
  | JNum int
  | JStr string
  | JArr "jsval list"
  | JObj "(string \<times> jsval) list"

text \<open>
  What the scripts throw: a \<^verbatim>\<open>TypeError\<close> of the engine (reading a member of
  \<^verbatim>\<open>null\<close>, calling what is no function), whose message is the engine's, or an
  \<^verbatim>\<open>Error\<close> with its message.
\<close>

datatype js_error = TypeError | Error string

fun truthy :: "jsval \<Rightarrow> bool" where
  "truthy JUndefined = False"
| "truthy JNull = False"
| "truthy (JBool b) = b"
| "truthy (JNum n) = (n \<noteq> 0)"
| "truthy (JStr s) = (s \<noteq> [])"
| "truthy (JArr xs) = True"
| "truthy (JObj kvs) = True"

fun isArray :: "jsval \<Rightarrow> bool" where
  "isArray (JArr xs) = True"
| "isArray v = False"


fun nullish :: "jsval \<Rightarrow> bool" where
  "nullish JUndefined = True"
| "nullish JNull = True"
| "nullish v = False"

text \<open>
  \<^verbatim>\<open>v.k\<close> for a data member \<open>k\<close> of a value that is neither \<^verbatim>\<open>null\<close> nor
  \<^verbatim>\<open>undefined\<close> (reading a member of those throws; the callers below check first).
\<close>

fun getProp :: "jsval \<Rightarrow> string \<Rightarrow> jsval" where
  "getProp (JObj kvs) k = (case map_of kvs k of Some v \<Rightarrow> v | None \<Rightarrow> JUndefined)"
| "getProp v k = JUndefined"

text \<open>\<^verbatim>\<open>a || b\<close>.\<close>

definition or_else :: "jsval \<Rightarrow> jsval \<Rightarrow> jsval" where
  "or_else a b = (if truthy a then a else b)"

definition int_toString :: "int \<Rightarrow> string" where
  "int_toString n = (if n < 0 then ''-'' @ digits (nat (- n)) else digits (nat n))"

text \<open>
  The string a template literal inserts for a value. An array prints its elements joined
  by commas, \<^verbatim>\<open>null\<close> and \<^verbatim>\<open>undefined\<close> elements as nothing.
\<close>

fun js_toString :: "jsval \<Rightarrow> string" where
  "js_toString JUndefined = ''undefined''"
| "js_toString JNull = ''null''"
| "js_toString (JBool b) = (if b then ''true'' else ''false'')"
| "js_toString (JNum n) = int_toString n"
| "js_toString (JStr s) = s"
| "js_toString (JArr xs) =
     join_str '','' (map (\<lambda>x. if x = JUndefined \<or> x = JNull then [] else js_toString x) xs)"
| "js_toString (JObj kvs) = ''[object Object]''"

text \<open>\<^verbatim>\<open>xs.join(sep)\<close> on an array of values.\<close>

definition array_join :: "string \<Rightarrow> jsval list \<Rightarrow> string" where
  "array_join sep xs = join_str sep (map (\<lambda>x. if nullish x then [] else js_toString x) xs)"

text \<open>The elements of an array.\<close>

fun elements :: "jsval \<Rightarrow> jsval list" where
  "elements (JArr xs) = xs"
| "elements v = []"


section \<open>Result rendering (analysis.js, AnalysisManager)\<close>

text \<open>A line break of a template literal followed by its indentation.\<close>

definition nl :: "nat \<Rightarrow> string" where
  "nl n = CHR 0x0A # replicate n CHR '' ''"





definition toLowerCase_char :: "char \<Rightarrow> char" where
  "toLowerCase_char c =
     (case map_of (zip ''ABCDEFGHIJKLMNOPQRSTUVWXYZ'' ''abcdefghijklmnopqrstuvwxyz'') c of
        Some l \<Rightarrow> l | None \<Rightarrow> c)"




text \<open>
  The page is a map from element ids to the markup they hold; an id outside its domain
  is an element the page does not have.
\<close>

type_synonym page = "string \<rightharpoonup> string"













text \<open>
  \<^verbatim>\<open>displayPrePitchSection\<close> builds its markup phase by phase and assigns it to the
  container at the end, so an exception on the way leaves the page as it was.
  \<^verbatim>\<open>forEach\<close> and \<^verbatim>\<open>join\<close> exist on arrays only, and reading a member of a phase
  that is \<^verbatim>\<open>null\<close> throws.
\<close>

definition phase_card :: "jsval \<Rightarrow> js_error + string" where
  \<open>phase_card fase =
     (if nullish fase then Inl TypeError
      else if truthy (getProp fase ''tecnicas'') \<and> \<not> isArray (getProp fase ''tecnicas'')
      then Inl TypeError
      else
        Inr (nl 20 @ ''<div class="phase-card">'' @
             nl 24 @ ''<h5>'' @ js_toString (getProp fase ''fase'') @ ''</h5>'' @
             nl 24 @ ''<p><strong>Objetivo:</strong> '' @ js_toString (getProp fase ''objetivo'') @
                     ''</p>'' @
             nl 24 @ ''<p><strong>Tempo:</strong> '' @ js_toString (getProp fase ''tempo'') @ ''</p>'' @
             nl 24 @
               (if truthy (getProp fase ''tecnicas'')
                then ''<p><strong>T'' @ [CHR 0xC3, CHR 0xA9] @ ''cnicas:</strong> '' @
                     join_str '', ''
                       (map (\<lambda>x. if nullish x then [] else js_toString x)
                            (elements (getProp fase ''tecnicas''))) @
                     ''</p>''
                else []) @
             nl 20 @ ''</div>'' @
             nl 16))\<close>

fun phase_cards :: "jsval list \<Rightarrow> js_error + string" where
  "phase_cards [] = Inr []"
| "phase_cards (fase # fases) =
     (case phase_card fase of
        Inl e \<Rightarrow> Inl e
      | Inr first_card \<Rightarrow>
          (case phase_cards fases of
             Inl e \<Rightarrow> Inl e
           | Inr other_cards \<Rightarrow> Inr (first_card @ other_cards)))"

definition prePitch_markup :: "jsval \<Rightarrow> js_error + string" where
  \<open>prePitch_markup prePitch =
     (let orquestracao = getProp prePitch ''orquestracao_emocional'';
          sequencia = getProp orquestracao ''sequencia_psicologica'';
          head = nl 12 @ ''<div class="result-section">'' @
                 nl 16 @ ''<h3 class="section-title">'' @ [CHR 0xF0, CHR 0x9F, CHR 0x8E, CHR 0xAF] @
                          '' Pr'' @ [CHR 0xC3, CHR 0xA9] @ ''-Pitch Invis'' @ [CHR 0xC3, CHR 0xAD] @
                          ''vel</h3>'' @
                 nl 16 @ ''<div class="pre-pitch-content">'' @
                 nl 8;
          foot = nl 16 @ ''</div>'' @
                 nl 12 @ ''</div>'' @
                 nl 8
      in if truthy orquestracao \<and> truthy sequencia then
           (if \<not> isArray sequencia then Inl TypeError
            else case phase_cards (elements sequencia) of
                   Inl e \<Rightarrow> Inl e
                 | Inr phases \<Rightarrow>
                     Inr (head @
                          nl 16 @ ''<div class="emotional-orchestration">'' @
                          nl 20 @ ''<h4>'' @ [CHR 0xF0, CHR 0x9F, CHR 0x8E, CHR 0xBC] @ '' Orquestra'' @
                                   [CHR 0xC3, CHR 0xA7, CHR 0xC3, CHR 0xA3] @ ''o Emocional</h4>'' @
                          nl 20 @ ''<div class="sequence-timeline">'' @
                          nl 12 @
                          phases @
                          nl 20 @ ''</div>'' @
                          nl 16 @ ''</div>'' @
                          nl 12 @
                          foot))
         else Inr (head @ foot))\<close>

definition displayPrePitchSection :: "jsval \<Rightarrow> page \<Rightarrow> js_error + page" where
  "displayPrePitchSection prePitch document =
     (if \<not> truthy prePitch then Inr document
      else case document ''prePitchResults'' of
             None \<Rightarrow> Inr document
           | Some old \<Rightarrow>
               (case prePitch_markup prePitch of
                  Inl e \<Rightarrow> Inl e
                | Inr markup \<Rightarrow> Inr (document(''prePitchResults'' \<mapsto> markup))))"






section \<open>Upload manager (the upload script)\<close>

record upload_file =
  file_name :: string
  file_size :: nat
  file_type :: string

definition maxFileSize :: nat where
  "maxFileSize = 16 * 1024 * 1024"

definition allowedTypes :: "string list" where
  "allowedTypes =
     [''application/pdf'',
      ''application/vnd.openxmlformats-officedocument.wordprocessingml.document'',
      ''application/msword'',
      ''application/vnd.openxmlformats-officedocument.spreadsheetml.sheet'',
      ''application/vnd.ms-excel'',
      ''text/csv'',
      ''text/plain'',
      ''application/json'']"

definition allowedExtensions :: "string list" where
  "allowedExtensions =
     [''.pdf'', ''.doc'', ''.docx'', ''.xlsx'', ''.xls'', ''.csv'', ''.txt'', ''.json'']"

text \<open>\<^verbatim>\<open>s.split(c).pop()\<close>: what follows the last \<open>c\<close>, all of \<open>s\<close> when it has none.\<close>

definition split_pop :: "char \<Rightarrow> string \<Rightarrow> string" where
  "split_pop c s = rev (takeWhile (\<lambda>x. x \<noteq> c) (rev s))"

text \<open>
  \<^verbatim>\<open>toLowerCase\<close> on the letters A to Z. No character outside ASCII lowers to a letter of
  an allowed extension, so membership in \<open>allowedExtensions\<close> is the script's.
\<close>

definition toLowerCase :: "string \<Rightarrow> string" where
  "toLowerCase s = map toLowerCase_char s"

definition fileExtension :: "upload_file \<Rightarrow> string" where
  "fileExtension file = ''.'' @ toLowerCase (split_pop CHR ''.'' (file_name file))"

datatype validation = Valid | Invalid string

definition validateFile :: "upload_file \<Rightarrow> validation" where
  \<open>validateFile file =
     (if file_size file > maxFileSize then
        Invalid (''Arquivo "'' @ file_name file @ ''" '' @ [CHR 0xC3, CHR 0xA9] @
                 '' muito grande. Tamanho m'' @ [CHR 0xC3, CHR 0xA1] @ ''ximo: 16MB.'')
      else
        let isValidType = file_type file \<in> set allowedTypes \<or>
                          fileExtension file \<in> set allowedExtensions
        in if \<not> isValidType then
             Invalid (''Tipo de arquivo "'' @ file_name file @ ''" n'' @ [CHR 0xC3, CHR 0xA3] @
                      ''o suportado. Tipos aceitos: PDF, DOC, DOCX, XLSX, XLS, CSV, TXT, JSON.'')
           else Valid)\<close>

text \<open>
  The part of the page the upload manager works on: the container \<open>uploadedFiles\<close>
  (\<open>None\<close> when the page has none) with, for each \<open>.file-item\<close> in it, the text of its
  \<open>.file-name\<close>; the requests sent; the messages shown by \<^verbatim>\<open>showError\<close>.
\<close>

record upload_page =
  uploadedFiles :: "string list option"
  up_requests :: "request list"
  up_errors :: "string list"

text \<open>
  \<^verbatim>\<open>addFileToUI\<close> inserts the file name as markup; \<open>shown\<close> gives the text the browser
  then reports for it (the name itself when it holds no markup).
\<close>

definition addFileToUI :: "(string \<Rightarrow> string) \<Rightarrow> upload_file \<Rightarrow> upload_page \<Rightarrow> upload_page" where
  "addFileToUI shown file p =
     (case uploadedFiles p of
        None \<Rightarrow> p
      | Some items \<Rightarrow> p\<lparr>uploadedFiles := Some (items @ [shown (file_name file)])\<rparr>)"

text \<open>
  \<^verbatim>\<open>uploadFile\<close> looks its element up by \<^verbatim>\<open>file._fileData?.id\<close>, which no file has
  (the id is stored on the element), and then by the text of \<open>.file-name\<close>; without an
  element it returns before any request.
\<close>

definition uploadFile :: "upload_file \<Rightarrow> upload_page \<Rightarrow> upload_page" where
  "uploadFile file p =
     (let fileElement = find (\<lambda>text. text = file_name file)
                             (case uploadedFiles p of None \<Rightarrow> [] | Some items \<Rightarrow> items)
      in case fileElement of
           None \<Rightarrow> p
         | Some el \<Rightarrow> p\<lparr>up_requests := up_requests p @ [Request POST ''/api/upload_attachment'']\<rparr>)"

definition processFile :: "(string \<Rightarrow> string) \<Rightarrow> upload_file \<Rightarrow> upload_page \<Rightarrow> upload_page" where
  "processFile shown file p =
     (case validateFile file of
        Invalid message \<Rightarrow> p\<lparr>up_errors := up_errors p @ [message]\<rparr>
      | Valid \<Rightarrow> uploadFile file (addFileToUI shown file p))"

definition handleFiles :: "(string \<Rightarrow> string) \<Rightarrow> upload_file list \<Rightarrow> upload_page \<Rightarrow> upload_page" where
  "handleFiles shown files p = foldl (\<lambda>q file. processFile shown file q) p files"

section \<open>The requests of the page scripts\<close>

text \<open>
  Every place where a page script calls \<^verbatim>\<open>fetch\<close> or opens an \<^verbatim>\<open>XMLHttpRequest\<close>, with
  the values its URL is built from. \<^verbatim>\<open>fetch\<close> without a method is a \<open>GET\<close>.
\<close>

datatype call_site =
    ARQVApp_checkSystemStatus
  | AnalysisManager_startAnalysis
  | AnalysisManager_downloadPdf
  | AsyncAnalysisManager_startAsyncAnalysis
  | AsyncAnalysisManager_statusCheck jsval
  | AsyncAnalysisManager_downloadPDF
  | AsyncAnalysisManager_loadDashboard
  | AsyncAnalysisManager_downloadAnalysis jsval jsval
  | AsyncAnalysisManager_validateAPIs
  | FileUploadManager_uploadFile

fun request_of :: "call_site \<Rightarrow> request" where
  "request_of ARQVApp_checkSystemStatus = Request GET ''/api/app_status''"
| "request_of AnalysisManager_startAnalysis = Request POST ''/api/analyze''"
| "request_of AnalysisManager_downloadPdf = Request POST ''/generate-pdf''"
| "request_of AsyncAnalysisManager_startAsyncAnalysis = Request POST ''/api/analyze_async''"
| "request_of (AsyncAnalysisManager_statusCheck currentTaskId) =
     Request GET (''/api/task_status/'' @ js_toString currentTaskId)"
| "request_of AsyncAnalysisManager_downloadPDF = Request POST ''/api/generate_pdf''"
| "request_of AsyncAnalysisManager_loadDashboard = Request GET ''/api/dashboard''"
| "request_of (AsyncAnalysisManager_downloadAnalysis analysisId format) =
     Request GET (''/api/analysis/'' @ js_toString analysisId @ ''/download?format='' @
                  js_toString format)"
| "request_of AsyncAnalysisManager_validateAPIs = Request POST ''/api/validate_apis''"
| "request_of FileUploadManager_uploadFile = Request POST ''/api/upload_attachment''"

text \<open>
  The endpoints the specification lists as consumed by the front end, in its words:
  \<open>POST /api/analyze\<close>, \<open>POST /api/analyze_async\<close>, \<open>GET /api/task_status/:id\<close>,
  \<open>POST /api/upload_attachment\<close>, \<open>GET /api/dashboard\<close>, \<open>POST /generate-pdf\<close>,
  \<open>GET /api/app_status\<close>.
\<close>

fun spec_endpoint :: "request \<Rightarrow> bool" where
  "spec_endpoint (Request m u) =
     (m = POST \<and> u = ''/api/analyze'' \<or>
      m = POST \<and> u = ''/api/analyze_async'' \<or>
      m = GET \<and> prefix ''/api/task_status/'' u \<or>
      m = POST \<and> u = ''/api/upload_attachment'' \<or>
      m = GET \<and> u = ''/api/dashboard'' \<or>
      m = POST \<and> u = ''/generate-pdf'' \<or>
      m = GET \<and> u = ''/api/app_status'')"

section \<open>Synchronous analysis (analysis.js, AnalysisManager)\<close>

text \<open>
  \<^verbatim>\<open>startAnalysis\<close> is an \<^verbatim>\<open>async\<close> method: a call runs to its first \<^verbatim>\<open>await\<close> and is
  resumed when the awaited promise settles. The manager's state therefore holds the
  suspended calls, each at \<^verbatim>\<open>await fetch(...)\<close> or at \<^verbatim>\<open>await response.json()\<close>. The
  progress animation only moves the progress bar and is left out; \<open>am_results\<close> are the
  results handed to \<^verbatim>\<open>displayResults\<close>.
\<close>

datatype run = AwaitingFetch | AwaitingJson




text \<open>
  \<^verbatim>\<open>validateForm\<close>: \<open>segmento\<close> is \<^verbatim>\<open>document.getElementById('segmento')?.value?.trim()\<close>,
  \<open>None\<close> when that is \<^verbatim>\<open>undefined\<close>.
\<close>

definition validateForm :: "string option \<Rightarrow> bool" where
  "validateForm segmento = (case segmento of None \<Rightarrow> False | Some s \<Rightarrow> s \<noteq> [])"

definition Erro_na_analise :: string where
  \<open>Erro_na_analise = ''Erro na an'' @ [CHR 0xC3, CHR 0xA1] @ ''lise: ''\<close>










section \<open>Service Worker\<close>

definition STATIC_FILES :: "string list" where
  "STATIC_FILES =
     [''/'',
      ''/static/css/main.css'',
      ''/static/css/components.css'',
      ''/static/js/main.js'',
      ''/static/js/analysis.js'',
      ''/static/js/upload.js'',
      ''/static/images/logo.png'',
      ''https://fonts.googleapis.com/css2?family=Inter:wght@300;400;500;600;700&display=swap'',
      ''https://cdnjs.cloudflare.com/ajax/libs/font-awesome/6.4.0/css/all.min.css'']"

definition API_CACHE_PATTERNS :: "string list" where
  "API_CACHE_PATTERNS = [''/api/health'', ''/api/app_status'', ''/api/stats'']"

definition isStaticFile :: "string \<Rightarrow> bool" where
  "isStaticFile url =
     (list_ex (\<lambda>file. str_includes url file) STATIC_FILES \<or>
      str_includes url ''/static/'' \<or>
      str_includes url ''.css'' \<or>
      str_includes url ''.js'' \<or>
      str_includes url ''.png'' \<or>
      str_includes url ''.jpg'' \<or>
      str_includes url ''.ico'' \<or>
      str_includes url ''fonts.googleapis.com'' \<or>
      str_includes url ''cdnjs.cloudflare.com'')"

definition isAPIRequest :: "string \<Rightarrow> bool" where
  "isAPIRequest url = list_ex (\<lambda>pattern. str_includes url pattern) API_CACHE_PATTERNS"

definition isAnalysisRequest :: "string \<Rightarrow> bool" where
  "isAnalysisRequest url =
     (str_includes url ''/api/analyze'' \<or>
      str_includes url ''/api/upload_attachment'' \<or>
      str_includes url ''/generate-pdf'')"

record sw_request =
  req_method :: string
  req_url :: string

datatype strategy = CacheFirst | NetworkFirstWithCache | NetworkOnly | StaleWhileRevalidate

text \<open>
  The \<^verbatim>\<open>fetch\<close> listener. \<open>None\<close>: it returns without \<^verbatim>\<open>respondWith\<close>, and the browser
  handles the request as if there were no Service Worker.
\<close>

definition fetch_listener :: "sw_request \<Rightarrow> strategy option" where
  "fetch_listener request =
     (if req_method request \<noteq> ''GET'' then None
      else if \<not> prefix ''http'' (req_url request) then None
      else if isStaticFile (req_url request) then Some CacheFirst
      else if isAPIRequest (req_url request) then Some NetworkFirstWithCache
      else if isAnalysisRequest (req_url request) then Some NetworkOnly
      else Some StaleWhileRevalidate)"

text \<open>
  A response, the two caches of the worker (keyed by URL: every request it handles is a
  \<open>GET\<close>), and the network, which answers a URL or fails (\<open>None\<close>, a rejected
  \<^verbatim>\<open>fetch\<close>). \<^verbatim>\<open>caches.match\<close> searches the caches in the order of their creation,
  the static cache first.
\<close>

record response =
  resp_ok :: bool
  resp_status :: nat
  resp_body :: string

record cache_storage =
  static_cache :: "string \<rightharpoonup> response"
  dynamic_cache :: "string \<rightharpoonup> response"

definition caches_match :: "cache_storage \<Rightarrow> string \<Rightarrow> response option" where
  "caches_match caches url =
     (case static_cache caches url of
        Some r \<Rightarrow> Some r
      | None \<Rightarrow> dynamic_cache caches url)"

text \<open>
  What serving a request comes to: the response handed to the page (\<open>None\<close> when the
  page sees a network error), whether it was taken from a cache, whether the network
  was contacted, and the caches afterwards.
\<close>

record served =
  answer :: "response option"
  from_cache :: bool
  network_contacted :: bool
  caches_after :: cache_storage

definition offline_response :: "string \<Rightarrow> response" where
  "offline_response text = \<lparr>resp_ok = False, resp_status = 503, resp_body = text\<rparr>"

definition cacheFirst :: "(string \<Rightarrow> response option) \<Rightarrow> string \<Rightarrow> cache_storage \<Rightarrow> served" where
  "cacheFirst network url caches =
     (case caches_match caches url of
        Some cachedResponse \<Rightarrow>
          \<lparr>answer = Some cachedResponse, from_cache = True, network_contacted = False,
           caches_after = caches\<rparr>
      | None \<Rightarrow>
          (case network url of
             Some networkResponse \<Rightarrow>
               \<lparr>answer = Some networkResponse, from_cache = False, network_contacted = True,
                caches_after =
                  (if resp_ok networkResponse
                   then caches\<lparr>static_cache := (static_cache caches)(url \<mapsto> networkResponse)\<rparr>
                   else caches)\<rparr>
           | None \<Rightarrow>
               \<lparr>answer = Some (offline_response ''Offline - Content not available''),
                from_cache = False, network_contacted = True, caches_after = caches\<rparr>))"

definition networkFirstWithCache :: "(string \<Rightarrow> response option) \<Rightarrow> string \<Rightarrow> cache_storage \<Rightarrow> served" where
  \<open>networkFirstWithCache network url caches =
     (case (case network url of
              Some networkResponse \<Rightarrow> if resp_ok networkResponse then Some networkResponse else None
            | None \<Rightarrow> None) of
        Some networkResponse \<Rightarrow>
          \<lparr>answer = Some networkResponse, from_cache = False, network_contacted = True,
           caches_after = caches\<lparr>dynamic_cache := (dynamic_cache caches)(url \<mapsto> networkResponse)\<rparr>\<rparr>
      | None \<Rightarrow>
          (case caches_match caches url of
             Some cachedResponse \<Rightarrow>
               \<lparr>answer = Some cachedResponse, from_cache = True, network_contacted = True,
                caches_after = caches\<rparr>
           | None \<Rightarrow>
               \<lparr>answer = Some (offline_response
                  ''{"error":"Offline","message":"Network unavailable and no cached version found"}''),
                from_cache = False, network_contacted = True, caches_after = caches\<rparr>))\<close>

definition networkOnly :: "(string \<Rightarrow> response option) \<Rightarrow> string \<Rightarrow> cache_storage \<Rightarrow> served" where
  \<open>networkOnly network url caches =
     (case network url of
        Some networkResponse \<Rightarrow>
          \<lparr>answer = Some networkResponse, from_cache = False, network_contacted = True,
           caches_after = caches\<rparr>
      | None \<Rightarrow>
          \<lparr>answer = Some (offline_response
             ''{"error":"Network Error","message":"Analysis requires internet connection"}''),
           from_cache = False, network_contacted = True, caches_after = caches\<rparr>)\<close>

definition staleWhileRevalidate :: "(string \<Rightarrow> response option) \<Rightarrow> string \<Rightarrow> cache_storage \<Rightarrow> served" where
  "staleWhileRevalidate network url caches =
     (let cachedResponse = dynamic_cache caches url;
          revalidated =
            (case network url of
               Some networkResponse \<Rightarrow>
                 if resp_ok networkResponse
                 then caches\<lparr>dynamic_cache := (dynamic_cache caches)(url \<mapsto> networkResponse)\<rparr>
                 else caches
             | None \<Rightarrow> caches)
      in case cachedResponse of
           Some r \<Rightarrow>
             \<lparr>answer = Some r, from_cache = True, network_contacted = True,
              caches_after = revalidated\<rparr>
         | None \<Rightarrow>
             \<lparr>answer = network url, from_cache = False, network_contacted = True,
              caches_after = revalidated\<rparr>)"

text \<open>A request as the page sees it served, with the worker in control.\<close>

definition serve :: "(string \<Rightarrow> response option) \<Rightarrow> sw_request \<Rightarrow> cache_storage \<Rightarrow> served" where
  "serve network request caches =
     (case fetch_listener request of
        None \<Rightarrow>
          \<lparr>answer = network (req_url request), from_cache = False, network_contacted = True,
           caches_after = caches\<rparr>
      | Some CacheFirst \<Rightarrow> cacheFirst network (req_url request) caches
      | Some NetworkFirstWithCache \<Rightarrow> networkFirstWithCache network (req_url request) caches
      | Some NetworkOnly \<Rightarrow> networkOnly network (req_url request) caches
      | Some StaleWhileRevalidate \<Rightarrow> staleWhileRevalidate network (req_url request) caches)"

section \<open>Database migration\<close>

text \<open>
  The migration creates three tables, one trigger function and two triggers. A row is a
  map from the columns of its table to values. In PL/pgSQL an assignment to a field the
  row \<open>NEW\<close> does not have raises an error, which aborts the statement.
\<close>

datatype table_name = analyses | sessions | attachments

datatype sql_value = SqlNull | SqlInt int | SqlText string | SqlTimestamp nat

datatype sql_error = NoSuchField string | NotNullViolation string | UniqueViolation string

type_synonym row = "string \<rightharpoonup> sql_value"

fun columns :: "table_name \<Rightarrow> string list" where
  "columns analyses =
     [''id'', ''nicho'', ''produto'', ''descricao'', ''preco'', ''publico'', ''concorrentes'',
      ''dados_adicionais'', ''objetivo_receita'', ''orcamento_marketing'', ''prazo_lancamento'',
      ''avatar_data'', ''positioning_data'', ''competition_data'', ''marketing_data'',
      ''metrics_data'', ''funnel_data'', ''market_intelligence'', ''action_plan'',
      ''comprehensive_analysis'', ''status'', ''created_at'', ''updated_at'']"
| "columns sessions =
     [''id'', ''session_id'', ''user_agent'', ''ip_address'', ''metadata'', ''created_at'',
      ''last_activity'']"
| "columns attachments =
     [''id'', ''session_id'', ''filename'', ''original_filename'', ''file_size'', ''mime_type'',
      ''content_type'', ''extracted_content'', ''metadata'', ''created_at'']"

text \<open>\<open>NOT NULL\<close> columns (a primary key is one) and \<open>UNIQUE\<close> columns (likewise).\<close>

fun not_null :: "table_name \<Rightarrow> string list" where
  "not_null analyses = [''id'', ''nicho'']"
| "not_null sessions = [''id'', ''session_id'']"
| "not_null attachments = [''id'', ''session_id'', ''filename'', ''original_filename'']"

fun unique :: "table_name \<Rightarrow> string list" where
  "unique analyses = [''id'']"
| "unique sessions = [''id'', ''session_id'']"
| "unique attachments = [''id'']"

text \<open>\<^verbatim>\<open>update_updated_at_column\<close>: \<^verbatim>\<open>NEW.updated_at = NOW(); RETURN NEW;\<close>\<close>

definition update_updated_at_column :: "nat \<Rightarrow> row \<Rightarrow> sql_error + row" where
  "update_updated_at_column now NEW =
     (if ''updated_at'' \<in> dom NEW then Inr (NEW(''updated_at'' \<mapsto> SqlTimestamp now))
      else Inl (NoSuchField ''updated_at''))"

text \<open>
  The \<open>BEFORE UPDATE ... FOR EACH ROW\<close> triggers of a table, by name, with the function
  each executes.
\<close>

fun before_update :: "table_name \<Rightarrow> (string \<times> (nat \<Rightarrow> row \<Rightarrow> sql_error + row)) list" where
  "before_update analyses = [(''update_analyses_updated_at'', update_updated_at_column)]"
| "before_update sessions = [(''update_sessions_last_activity'', update_updated_at_column)]"
| "before_update attachments = []"

fun run_triggers :: "(string \<times> (nat \<Rightarrow> row \<Rightarrow> sql_error + row)) list \<Rightarrow> nat \<Rightarrow> row \<Rightarrow> sql_error + row" where
  "run_triggers [] now NEW = Inr NEW"
| "run_triggers ((name, f) # ts) now NEW =
     (case f now NEW of Inl e \<Rightarrow> Inl e | Inr NEW' \<Rightarrow> run_triggers ts now NEW')"

definition check_not_null :: "table_name \<Rightarrow> row \<Rightarrow> sql_error + row" where
  "check_not_null t r =
     (case find (\<lambda>c. r c = None \<or> r c = Some SqlNull) (not_null t) of
        Some c \<Rightarrow> Inl (NotNullViolation c)
      | None \<Rightarrow> Inr r)"

definition check_unique :: "table_name \<Rightarrow> row list \<Rightarrow> row \<Rightarrow> sql_error + row" where
  "check_unique t others r =
     (case find (\<lambda>c. r c \<noteq> None \<and> r c \<noteq> Some SqlNull \<and> list_ex (\<lambda>other. other c = r c) others)
                (unique t) of
        Some c \<Rightarrow> Inl (UniqueViolation c)
      | None \<Rightarrow> Inr r)"

text \<open>
  \<open>UPDATE t SET ... WHERE\<close> on one row \<open>OLD\<close> at time \<open>now\<close>, the other rows of the
  table given: the assignments are applied, the triggers run on the new row, the
  constraints are checked.
\<close>

definition sql_update :: "table_name \<Rightarrow> nat \<Rightarrow> row list \<Rightarrow> row \<Rightarrow> (string \<times> sql_value) list \<Rightarrow> sql_error + row" where
  "sql_update t now others OLD assignments =
     (case run_triggers (before_update t) now (OLD ++ map_of assignments) of
        Inl e \<Rightarrow> Inl e
      | Inr NEW \<Rightarrow>
          (case check_not_null t NEW of
             Inl e \<Rightarrow> Inl e
           | Inr NEW \<Rightarrow> check_unique t others NEW))"

definition sql_insert :: "table_name \<Rightarrow> row list \<Rightarrow> row \<Rightarrow> sql_error + row list" where
  "sql_insert t rows r =
     (case check_not_null t r of
        Inl e \<Rightarrow> Inl e
      | Inr r \<Rightarrow> (case check_unique t rows r of Inl e \<Rightarrow> Inl e | Inr r \<Rightarrow> Inr (rows @ [r])))"

section \<open>Asynchronous analysis (analysis.js, AsyncAnalysisManager)\<close>

text \<open>
  The manager's fields, and what it acts on: the page's running \<^verbatim>\<open>setInterval\<close> timers
  (handle and period in milliseconds; handles are positive and never reused), its
  suspended \<^verbatim>\<open>async\<close> calls, the entry \<open>last_analysis_result\<close> of
  \<^verbatim>\<open>localStorage\<close> (the value it parses to, \<open>None\<close> when there is no entry), the
  requests sent, the messages shown and the files handed to the browser to save.
\<close>

datatype content = TextPlain string | ApplicationJson jsval | ResponseBlob string

text \<open>
  A message shown to the user: a text, or a text followed by the message of a
  \<^verbatim>\<open>TypeError\<close>, which the engine words.
\<close>

datatype notice = Notice string | TypeErrorNotice string

fun error_notice :: "string \<Rightarrow> js_error \<Rightarrow> notice" where
  "error_notice lead (Error message) = Notice (lead @ message)"
| "error_notice lead TypeError = TypeErrorNotice lead"

record download =
  dl_name :: string
  dl_content :: content

record AsyncAnalysisManager =
  currentTaskId :: jsval
  statusCheckInterval :: "nat option"
  intervals :: "(nat \<times> nat) list"
  nextHandle :: nat
  pendingStarts :: nat
  pendingChecks :: nat
  last_analysis_result :: "jsval option"
  as_requests :: "request list"
  as_errors :: "notice list"
  as_successes :: "string list"
  as_downloads :: "download list"

definition as_showError :: "notice \<Rightarrow> AsyncAnalysisManager \<Rightarrow> AsyncAnalysisManager" where
  "as_showError message m = m\<lparr>as_errors := as_errors m @ [message]\<rparr>"

definition as_showSuccess :: "string \<Rightarrow> AsyncAnalysisManager \<Rightarrow> AsyncAnalysisManager" where
  "as_showSuccess message m = m\<lparr>as_successes := as_successes m @ [message]\<rparr>"

definition loadDashboard :: "AsyncAnalysisManager \<Rightarrow> AsyncAnalysisManager" where
  "loadDashboard m = m\<lparr>as_requests := as_requests m @ [request_of AsyncAnalysisManager_loadDashboard]\<rparr>"

text \<open>The constructor ends in \<^verbatim>\<open>init\<close>, which loads the dashboard.\<close>

definition AsyncAnalysisManager_constructor :: "jsval option \<Rightarrow> AsyncAnalysisManager" where
  "AsyncAnalysisManager_constructor stored =
     loadDashboard
       \<lparr>currentTaskId = JNull, statusCheckInterval = None, intervals = [], nextHandle = 1,
        pendingStarts = 0, pendingChecks = 0, last_analysis_result = stored,
        as_requests = [], as_errors = [], as_successes = [], as_downloads = []\<rparr>"

definition startStatusMonitoring :: "AsyncAnalysisManager \<Rightarrow> AsyncAnalysisManager" where
  "startStatusMonitoring m =
     (if \<not> truthy (currentTaskId m) then m
      else m\<lparr>statusCheckInterval := Some (nextHandle m),
             intervals := intervals m @ [(nextHandle m, 2000)],
             nextHandle := nextHandle m + 1\<rparr>)"

definition stopStatusMonitoring :: "AsyncAnalysisManager \<Rightarrow> AsyncAnalysisManager" where
  "stopStatusMonitoring m =
     (case statusCheckInterval m of
        None \<Rightarrow> m
      | Some handle \<Rightarrow>
          m\<lparr>intervals := filter (\<lambda>timer. fst timer \<noteq> handle) (intervals m),
            statusCheckInterval := None\<rparr>)"

text \<open>
  \<^verbatim>\<open>startAsyncAnalysis\<close> up to its \<^verbatim>\<open>await fetch(...)\<close>. It has no guard against a run
  already under way.
\<close>

definition startAsyncAnalysis :: "string option \<Rightarrow> AsyncAnalysisManager \<Rightarrow> AsyncAnalysisManager" where
  "startAsyncAnalysis segmento m =
     (if \<not> validateForm segmento then
        as_showError (Notice ''Por favor, preencha pelo menos o segmento de mercado.'') m
      else m\<lparr>as_requests := as_requests m @ [request_of AsyncAnalysisManager_startAsyncAnalysis],
             pendingStarts := pendingStarts m + 1\<rparr>)"

text \<open>
  How the awaited \<open>POST\<close> ends: \<^verbatim>\<open>fetch\<close> rejects or the body is not JSON (with the
  message of the exception), the response is not \<open>ok\<close> (with its status), or the body
  parses to a result.
\<close>

datatype post_outcome = PostThrew string | PostNotOk nat | PostResult jsval

definition postSettled :: "post_outcome \<Rightarrow> AsyncAnalysisManager \<Rightarrow> AsyncAnalysisManager" where
  \<open>postSettled outcome m =
     (if pendingStarts m = 0 then m
      else
        let m = m\<lparr>pendingStarts := pendingStarts m - 1\<rparr>
        in case outcome of
             PostThrew message \<Rightarrow> as_showError (error_notice ''Erro: '' (Error message)) m
           | PostNotOk status \<Rightarrow>
               as_showError (error_notice ''Erro: '' (Error (Erro_na_analise @ digits status))) m
           | PostResult result \<Rightarrow>
               if nullish result then as_showError (error_notice ''Erro: '' TypeError) m
               else
                 as_showSuccess
                   (''An'' @ [CHR 0xC3, CHR 0xA1] @ ''lise iniciada! ID: '' @
                    js_toString (getProp result ''task_id''))
                   (startStatusMonitoring (m\<lparr>currentTaskId := getProp result ''task_id''\<rparr>)))\<close>

text \<open>The interval callback up to its \<^verbatim>\<open>await fetch(...)\<close>, for a timer that is running.\<close>

definition intervalFires :: "nat \<Rightarrow> AsyncAnalysisManager \<Rightarrow> AsyncAnalysisManager" where
  "intervalFires handle m =
     (if handle \<in> fst ` set (intervals m) then
        m\<lparr>as_requests := as_requests m @
             [request_of (AsyncAnalysisManager_statusCheck (currentTaskId m))],
          pendingChecks := pendingChecks m + 1\<rparr>
      else m)"

text \<open>
  \<^verbatim>\<open>displayInteractiveDashboard\<close> returns at once when the page has no container
  \<open>interactiveDashboard\<close>; otherwise it renders the result, which throws on a result it
  cannot read, and stores the result in \<^verbatim>\<open>localStorage\<close>. Which of the three happens
  is given with the status; a \<^verbatim>\<open>null\<close> or missing result cannot be rendered.
\<close>

datatype display_outcome = NoContainer | Rendered | RenderThrows

definition onAnalysisComplete :: "display_outcome \<Rightarrow> jsval \<Rightarrow> AsyncAnalysisManager \<Rightarrow> AsyncAnalysisManager option" where
  \<open>onAnalysisComplete display result m =
     (if display = RenderThrows \<or> (display = Rendered \<and> nullish result) then None
      else
        Some (as_showSuccess (''An'' @ [CHR 0xC3, CHR 0xA1] @ ''lise conclu'' @ [CHR 0xC3, CHR 0xAD] @ ''da com sucesso!'')
               (loadDashboard
                 (if display = Rendered then m\<lparr>last_analysis_result := Some result\<rparr> else m))))\<close>

definition onAnalysisError :: "jsval \<Rightarrow> AsyncAnalysisManager \<Rightarrow> AsyncAnalysisManager" where
  "onAnalysisError error m = as_showError (Notice (Erro_na_analise @ js_toString error)) m"

text \<open>
  How the awaited status request ends: it throws (\<^verbatim>\<open>fetch\<close> rejects, or the body is not
  JSON), which the callback catches and logs, or the body parses to a status.
\<close>

datatype check_outcome = CheckThrew | CheckStatus jsval display_outcome

definition checkSettled :: "check_outcome \<Rightarrow> AsyncAnalysisManager \<Rightarrow> AsyncAnalysisManager" where
  "checkSettled outcome m =
     (if pendingChecks m = 0 then m
      else
        let m = m\<lparr>pendingChecks := pendingChecks m - 1\<rparr>
        in case outcome of
             CheckThrew \<Rightarrow> m
           | CheckStatus status display \<Rightarrow>
               if nullish status then m
               else if getProp status ''state'' = JStr ''SUCCESS'' then
                 (case onAnalysisComplete display (getProp status ''result'') m of
                    None \<Rightarrow> m
                  | Some m' \<Rightarrow> stopStatusMonitoring m')
               else if getProp status ''state'' = JStr ''FAILURE'' then
                 stopStatusMonitoring (onAnalysisError (getProp status ''error'') m)
               else m)"

text \<open>
  The plain-text report of \<^verbatim>\<open>generateTXTReport\<close> and its four helpers. \<open>locale_now\<close> is
  what \<^verbatim>\<open>new Date().toLocaleString('pt-BR')\<close> prints. \<^verbatim>\<open>map\<close> and \<^verbatim>\<open>join\<close> exist
  on arrays only, so calling them on another value throws, as does reading a member
  of \<^verbatim>\<open>null\<close>.
\<close>

definition Dados_nao_disponiveis :: string where
  \<open>Dados_nao_disponiveis = ''Dados n'' @ [CHR 0xC3, CHR 0xA3] @ ''o dispon'' @ [CHR 0xC3, CHR 0xAD] @ ''veis''\<close>

text \<open>\<^verbatim>\<open>v?.k\<close>.\<close>

definition opt_member :: "jsval \<Rightarrow> string \<Rightarrow> jsval" where
  "opt_member v k = (if nullish v then JUndefined else getProp v k)"

text \<open>\<^verbatim>\<open>xs.map((x, i) => `${i + 1}. ${x}`).join('\n')\<close>.\<close>

definition numbered_lines :: "jsval list \<Rightarrow> string" where
  "numbered_lines xs =
     join_str (nl 0) (map (\<lambda>(i, x). digits (i + 1) @ ''. '' @ js_toString x) (enumerate 0 xs))"

definition formatAvatarForTXT :: "jsval \<Rightarrow> js_error + string" where
  \<open>formatAvatarForTXT avatar =
     (if \<not> truthy avatar then Inr Dados_nao_disponiveis
      else
        let perfil = or_else (getProp avatar ''perfil_demografico'') (JObj []);
            dores = or_else (getProp avatar ''dores_principais'') (JArr []);
            desejos = or_else (getProp avatar ''desejos_principais'') (JArr [])
        in if \<not> isArray dores \<or> \<not> isArray desejos then Inl TypeError
           else
             Inr (nl 0 @ ''Perfil Demogr'' @ [CHR 0xC3, CHR 0xA1] @ ''fico:'' @
                  nl 0 @ ''- Idade: '' @ js_toString (or_else (getProp perfil ''idade'') (JStr ''N/A'')) @
                  nl 0 @ ''- Renda: '' @ js_toString (or_else (getProp perfil ''renda'') (JStr ''N/A'')) @
                  nl 0 @ ''- Localiza'' @ [CHR 0xC3, CHR 0xA7, CHR 0xC3, CHR 0xA3] @ ''o: '' @
                         js_toString (or_else (getProp perfil ''localizacao'') (JStr ''N/A'')) @
                  nl 0 @
                  nl 0 @ ''Principais Dores:'' @
                  nl 0 @ numbered_lines (elements dores) @
                  nl 0 @
                  nl 0 @ ''Principais Desejos:'' @
                  nl 0 @ numbered_lines (elements desejos) @
                  nl 0))\<close>

definition formatInsightsForTXT :: "jsval \<Rightarrow> string" where
  \<open>formatInsightsForTXT insights =
     (if \<not> truthy insights \<or> \<not> isArray insights then ''Nenhum insight dispon'' @ [CHR 0xC3, CHR 0xAD] @ ''vel''
      else numbered_lines (elements insights))\<close>

text \<open>\<^verbatim>\<open>v?.join(', ') || 'N/A'\<close>.\<close>

definition joined_or_NA :: "jsval \<Rightarrow> js_error + string" where
  "joined_or_NA v =
     (if nullish v then Inr ''N/A''
      else if \<not> isArray v then Inl TypeError
      else Inr (let joined = array_join '', '' (elements v)
                in if joined = [] then ''N/A'' else joined))"

text \<open>The text of one competitor, the body of the callback of \<^verbatim>\<open>competition.map\<close>.\<close>

definition competitor_text :: "jsval \<Rightarrow> js_error + string" where
  \<open>competitor_text competitor =
     (if nullish competitor then Inl TypeError
      else case joined_or_NA (getProp competitor ''forcas'') of
             Inl e \<Rightarrow> Inl e
           | Inr forcas \<Rightarrow>
               (case joined_or_NA (getProp competitor ''fraquezas'') of
                  Inl e \<Rightarrow> Inl e
                | Inr fraquezas \<Rightarrow>
                    Inr (nl 0 @ ''Concorrente: '' @
                                js_toString (or_else (getProp competitor ''nome'') (JStr ''N/A'')) @
                         nl 0 @ ''For'' @ [CHR 0xC3, CHR 0xA7] @ ''as: '' @ forcas @
                         nl 0 @ ''Fraquezas: '' @ fraquezas @
                         nl 0)))\<close>

text \<open>\<^verbatim>\<open>xs.map(f)\<close> for a callback that may throw: the first exception ends it.\<close>

fun map_throwing :: "('a \<Rightarrow> js_error + 'b) \<Rightarrow> 'a list \<Rightarrow> js_error + 'b list" where
  "map_throwing f [] = Inr []"
| "map_throwing f (x # xs) =
     (case f x of
        Inl e \<Rightarrow> Inl e
      | Inr y \<Rightarrow> (case map_throwing f xs of Inl e \<Rightarrow> Inl e | Inr ys \<Rightarrow> Inr (y # ys)))"

definition formatCompetitionForTXT :: "jsval \<Rightarrow> js_error + string" where
  \<open>formatCompetitionForTXT competition =
     (if \<not> truthy competition \<or> \<not> isArray competition then Inr Dados_nao_disponiveis
      else case map_throwing competitor_text (elements competition) of
             Inl e \<Rightarrow> Inl e
           | Inr texts \<Rightarrow> Inr (join_str (nl 0) texts))\<close>

text \<open>\<^verbatim>\<open>v?.map(ativ => `- ${ativ}`).join('\n') || 'N/A'\<close>.\<close>

definition activities_or_NA :: "jsval \<Rightarrow> js_error + string" where
  "activities_or_NA v =
     (if nullish v then Inr ''N/A''
      else if \<not> isArray v then Inl TypeError
      else Inr (let joined = join_str (nl 0) (map (\<lambda>ativ. ''- '' @ js_toString ativ) (elements v))
                in if joined = [] then ''N/A'' else joined))"

definition formatActionPlanForTXT :: "jsval \<Rightarrow> js_error + string" where
  \<open>formatActionPlanForTXT actionPlan =
     (if \<not> truthy actionPlan then Inr Dados_nao_disponiveis
      else
        let fase_1 = getProp actionPlan ''fase_1'';
            fase_2 = getProp actionPlan ''fase_2''
        in case (if truthy fase_1 then
                   (case activities_or_NA (getProp fase_1 ''atividades'') of
                      Inl e \<Rightarrow> Inl e
                    | Inr atividades \<Rightarrow>
                        Inr (nl 0 @ ''Fase 1 ('' @
                             js_toString (or_else (getProp fase_1 ''duracao'') (JStr ''30 dias'')) @
                             ''):'' @ nl 0 @ atividades))
                 else Inr []) of
             Inl e \<Rightarrow> Inl e
           | Inr txt \<Rightarrow>
               if truthy fase_2 then
                 (case activities_or_NA (getProp fase_2 ''atividades'') of
                    Inl e \<Rightarrow> Inl e
                  | Inr atividades \<Rightarrow>
                      Inr (txt @ nl 0 @ nl 0 @ ''Fase 2 ('' @
                           js_toString (or_else (getProp fase_2 ''duracao'') (JStr ''60 dias'')) @
                           ''):'' @ nl 0 @ atividades))
               else Inr txt)\<close>

definition generateTXTReport :: "string \<Rightarrow> jsval \<Rightarrow> js_error + string" where
  \<open>generateTXTReport locale_now result =
     (if nullish result then Inl TypeError
      else
        let task_metadata = getProp result ''task_metadata''
        in case formatAvatarForTXT (getProp result ''avatar_ultra_detalhado'') of
             Inl e \<Rightarrow> Inl e
           | Inr avatar \<Rightarrow>
               (case formatCompetitionForTXT (getProp result ''analise_concorrencia'') of
                  Inl e \<Rightarrow> Inl e
                | Inr competition \<Rightarrow>
                    (case formatActionPlanForTXT (getProp result ''plano_acao'') of
                       Inl e \<Rightarrow> Inl e
                     | Inr actionPlan \<Rightarrow>
                         Inr (nl 0 @ ''ARQV30 Enhanced v2.0 - Relat'' @ [CHR 0xC3, CHR 0xB3] @ ''rio de An'' @ [CHR 0xC3, CHR 0xA1] @ ''lise de Mercado'' @
                              nl 0 @ ''========================================================'' @
                              nl 0 @
                              nl 0 @ ''Gerado em: '' @ locale_now @
                              nl 0 @ ''Task ID: '' @
                                     js_toString (or_else (opt_member task_metadata ''task_id'')
                                                          (JStr ''N/A'')) @
                              nl 0 @
                              nl 0 @ ''AVATAR ULTRA-DETALHADO:'' @
                              nl 0 @ avatar @
                              nl 0 @
                              nl 0 @ ''INSIGHTS EXCLUSIVOS:'' @
                              nl 0 @ formatInsightsForTXT (getProp result ''insights_exclusivos'') @
                              nl 0 @
                              nl 0 @ ''AN'' @ [CHR 0xC3, CHR 0x81] @ ''LISE DE CONCORR'' @ [CHR 0xC3, CHR 0x8A] @ ''NCIA:'' @
                              nl 0 @ competition @
                              nl 0 @
                              nl 0 @ ''PLANO DE A'' @ [CHR 0xC3, CHR 0x87, CHR 0xC3, CHR 0x83] @ ''O:'' @
                              nl 0 @ actionPlan @
                              nl 0 @
                              nl 0 @ ''========================================================'' @
                              nl 0 @ ''Relat'' @ [CHR 0xC3, CHR 0xB3] @ ''rio gerado pelo ARQV30 Enhanced v2.0'' @
                              nl 0 @ ''Processamento: '' @
                                     js_toString (or_else (opt_member task_metadata ''processing_mode'')
                                                          (JStr ''N/A'')) @
                              nl 0 @ ''IA Utilizada: '' @
                                     js_toString (or_else (opt_member task_metadata ''ai_provider_used'')
                                                          (JStr ''N/A'')) @
                              nl 0))))\<close>

text \<open>
  \<^verbatim>\<open>downloadReport\<close>, run to its end. \<open>now\<close> is \<^verbatim>\<open>Date.now()\<close> when the file is
  named, \<open>pdf\<close> how the \<open>POST\<close> for the PDF ends: it throws (with the message of the
  exception), or there is a response, \<open>ok\<close> or not, with its body. Each format's
  function returns the exception it ends with, if any.
\<close>

text \<open>
  \<^verbatim>\<open>JSON.parse(localStorage.getItem('last_analysis_result'))\<close>, which is \<^verbatim>\<open>null\<close> without
  an entry.
\<close>

definition stored_result :: "AsyncAnalysisManager \<Rightarrow> jsval" where
  "stored_result m = (case last_analysis_result m of None \<Rightarrow> JNull | Some r \<Rightarrow> r)"

datatype pdf_outcome = PdfThrew string | PdfResponse bool string

definition downloadTXT :: "nat \<Rightarrow> string \<Rightarrow> jsval \<Rightarrow> AsyncAnalysisManager \<Rightarrow> js_error option \<times> AsyncAnalysisManager" where
  "downloadTXT now locale_now result m =
     (case generateTXTReport locale_now result of
        Inl e \<Rightarrow> (Some e, m)
      | Inr txtContent \<Rightarrow>
          (None, m\<lparr>as_downloads := as_downloads m @
                    [\<lparr>dl_name = ''analise_'' @ digits now @ ''.txt'',
                      dl_content = TextPlain txtContent\<rparr>]\<rparr>))"

definition downloadPDF :: "nat \<Rightarrow> pdf_outcome \<Rightarrow> jsval \<Rightarrow> AsyncAnalysisManager \<Rightarrow> js_error option \<times> AsyncAnalysisManager" where
  "downloadPDF now pdf result m =
     (let m = m\<lparr>as_requests := as_requests m @ [request_of AsyncAnalysisManager_downloadPDF]\<rparr>
      in case pdf of
           PdfThrew message \<Rightarrow> (Some (Error message), m)
         | PdfResponse response_ok blob \<Rightarrow>
             if \<not> response_ok then (Some (Error ''Erro ao gerar PDF''), m)
             else (None, m\<lparr>as_downloads := as_downloads m @
                            [\<lparr>dl_name = ''analise_'' @ digits now @ ''.pdf'',
                              dl_content = ResponseBlob blob\<rparr>]\<rparr>))"

definition downloadJSON :: "nat \<Rightarrow> jsval \<Rightarrow> AsyncAnalysisManager \<Rightarrow> AsyncAnalysisManager" where
  "downloadJSON now result m =
     m\<lparr>as_downloads := as_downloads m @
        [\<lparr>dl_name = ''analise_'' @ digits now @ ''.json'', dl_content = ApplicationJson result\<rparr>]\<rparr>"

text \<open>The \<^verbatim>\<open>catch\<close> block of \<^verbatim>\<open>downloadReport\<close>, for a body that threw or did not.\<close>

definition downloadReport_catch :: "js_error option \<times> AsyncAnalysisManager \<Rightarrow> AsyncAnalysisManager" where
  "downloadReport_catch thrown =
     (case thrown of
        (Some e, m) \<Rightarrow> as_showError (error_notice ''Erro no download: '' e) m
      | (None, m) \<Rightarrow> m)"

definition downloadReport :: "nat \<Rightarrow> string \<Rightarrow> pdf_outcome \<Rightarrow> string \<Rightarrow> AsyncAnalysisManager \<Rightarrow> AsyncAnalysisManager" where
  \<open>downloadReport now locale_now pdf format m =
     (if \<not> truthy (currentTaskId m) then
        as_showError (Notice (''Nenhuma an'' @ [CHR 0xC3, CHR 0xA1] @ ''lise dispon'' @
                              [CHR 0xC3, CHR 0xAD] @ ''vel para download'')) m
      else
        let result = stored_result m
        in if format = ''txt'' then downloadReport_catch (downloadTXT now locale_now result m)
           else if format = ''pdf'' then downloadReport_catch (downloadPDF now pdf result m)
           else if format = ''json'' then downloadJSON now result m
           else m)\<close>




datatype as_event =
    StartAsyncAnalysis "string option"
  | PostSettled post_outcome
  | IntervalFires nat
  | CheckSettled check_outcome
  | DownloadReport nat string pdf_outcome string

fun as_step :: "AsyncAnalysisManager \<Rightarrow> as_event \<Rightarrow> AsyncAnalysisManager" where
  "as_step m (StartAsyncAnalysis segmento) = startAsyncAnalysis segmento m"
| "as_step m (PostSettled outcome) = postSettled outcome m"
| "as_step m (IntervalFires handle) = intervalFires handle m"
| "as_step m (CheckSettled outcome) = checkSettled outcome m"
| "as_step m (DownloadReport now locale_now pdf format) =
     downloadReport now locale_now pdf format m"

definition as_run :: "jsval option \<Rightarrow> as_event list \<Rightarrow> AsyncAnalysisManager" where
  "as_run stored events = foldl as_step (AsyncAnalysisManager_constructor stored) events"

section \<open>The results a plain-text report exists for\<close>









chapter \<open>Properties\<close>

section \<open>Evaluation lemmas\<close>

lemma digits_small: "n < 10 \<Longrightarrow> digits n = [digit_char n]"
  by (subst digits.simps) simp

lemma digits_large: "10 \<le> n \<Longrightarrow> digits n = digits (n div 10) @ [digit_char (n mod 10)]"
  by (subst digits.simps) simp

section \<open>Session identifier\<close>

lemma getSessionId_same:
  "AsyncAnalysisManager_getSessionId = AnalysisManager_getSessionId"
  by (intro ext) (simp add: AsyncAnalysisManager_getSessionId_def AnalysisManager_getSessionId_def)

lemma getSessionId_nonempty:
  "AnalysisManager_getSessionId now rnd ls = (sid, ls') \<Longrightarrow> sid \<noteq> [] \<and> ls' ''arqv30_session_id'' = Some sid"
  by (auto simp: AnalysisManager_getSessionId_def Let_def split: option.splits list.splits)

lemma getSessionId_stored:
  "ls ''arqv30_session_id'' = Some sid \<Longrightarrow> sid \<noteq> [] \<Longrightarrow>
   AnalysisManager_getSessionId now rnd ls = (sid, ls)"
  by (cases sid) (simp_all add: AnalysisManager_getSessionId_def)

text \<open>
  Claim C9. \<^verbatim>\<open>getSessionId\<close> is idempotent across calls and across the two managers:
  whichever manager makes the first call, on an empty storage it generates an identifier
  that starts with \<open>session_\<close> and stores it under \<open>arqv30_session_id\<close>; every later
  call, by either manager and at any time, returns that identifier and leaves the
  storage as it is.
\<close>

theorem getSessionId_idempotent:
  assumes "first \<in> {AnalysisManager_getSessionId, AsyncAnalysisManager_getSessionId}"
    and "later \<in> {AnalysisManager_getSessionId, AsyncAnalysisManager_getSessionId}"
    and "first now rnd localStorage = (sid, localStorage')"
  shows "later now' rnd' localStorage' = (sid, localStorage') \<and>
         (localStorage ''arqv30_session_id'' = None \<longrightarrow>
            prefix ''session_'' sid \<and>
            localStorage' = localStorage(''arqv30_session_id'' \<mapsto> sid))"
proof -
  have f: "first = AnalysisManager_getSessionId" and l: "later = AnalysisManager_getSessionId"
    using assms(1,2) by (auto simp: getSessionId_same)
  have run: "AnalysisManager_getSessionId now rnd localStorage = (sid, localStorage')"
    using assms(3) f by simp
  from getSessionId_nonempty [OF run]
  have "later now' rnd' localStorage' = (sid, localStorage')"
    unfolding l by (intro getSessionId_stored) simp_all
  moreover have "localStorage ''arqv30_session_id'' = None \<longrightarrow>
      prefix ''session_'' sid \<and> localStorage' = localStorage(''arqv30_session_id'' \<mapsto> sid)"
    using run by (auto simp: AnalysisManager_getSessionId_def Let_def)
  ultimately show ?thesis by simp
qed

theorem getSessionId_idempotent_witness:
  "AnalysisManager_getSessionId 1700000000000 ''k3j9x0a1b'' Map.empty =
     (''session_1700000000000_k3j9x0a1b'',
      [''arqv30_session_id'' \<mapsto> ''session_1700000000000_k3j9x0a1b'']) \<and>
   AsyncAnalysisManager_getSessionId 1700000099999 ''zzzzzzzzz''
      [''arqv30_session_id'' \<mapsto> ''session_1700000000000_k3j9x0a1b''] =
     (''session_1700000000000_k3j9x0a1b'',
      [''arqv30_session_id'' \<mapsto> ''session_1700000000000_k3j9x0a1b'']) \<and>
   prefix ''session_'' ''session_1700000000000_k3j9x0a1b''"
proof -
  have run: "AnalysisManager_getSessionId 1700000000000 ''k3j9x0a1b'' Map.empty =
     (''session_1700000000000_k3j9x0a1b'',
      [''arqv30_session_id'' \<mapsto> ''session_1700000000000_k3j9x0a1b''])"
    by (simp add: AnalysisManager_getSessionId_def Let_def digits_small digits_large digit_char_def)
  show ?thesis
    using run
      getSessionId_idempotent [of AnalysisManager_getSessionId AsyncAnalysisManager_getSessionId,
        OF _ _ run, of 1700000099999 "''zzzzzzzzz''"]
    by simp
qed

section \<open>File sizes\<close>

lemma ln_1024_bounds: "0 < ln (1024::real)" "ln (1024::real) \<le> 10"
proof -
  show "0 < ln (1024::real)" by simp
  have "ln (1024::real) = ln (2 ^ 10)" by simp
  also have "\<dots> = real 10 * ln 2" by (rule ln_realpow)
  also have "\<dots> \<le> 10 * 1" using ln_le_minus_one [of "2::real"] by simp
  finally show "ln (1024::real) \<le> 10" by simp
qed

lemma ln_below_power:
  assumes "1 \<le> b" "b + d \<le> 1024 ^ n"
  shows "ln (real b) \<le> real n * ln 1024 - real d / 1024 ^ n"
proof -
  have pos: "0 < real b" using assms(1) by simp
  have "ln (real b / 1024 ^ n) \<le> real b / 1024 ^ n - 1"
    using pos by (intro ln_le_minus_one) simp
  moreover have "ln (real b / 1024 ^ n) = ln (real b) - real n * ln 1024"
    using pos by (simp add: ln_div ln_realpow)
  moreover have "real b / 1024 ^ n - 1 \<le> - (real d / 1024 ^ n)"
  proof -
    have "real b + real d \<le> 1024 ^ n"
      using assms(2) by (metis of_nat_add of_nat_le_iff of_nat_numeral of_nat_power)
    then have "real b - 1024 ^ n \<le> - real d" by simp
    then have "(real b - 1024 ^ n) / 1024 ^ n \<le> (- real d) / 1024 ^ n"
      by (intro divide_right_mono) simp_all
    then show ?thesis by (simp add: diff_divide_distrib)
  qed
  ultimately show ?thesis by linarith
qed

lemma computed_quotient_bounds:
  assumes acc: "accurate fp" and b: "1 \<le> b"
  defines "q \<equiv> divide fp (Math_log fp (real b)) (Math_log fp 1024)"
  shows "0 \<le> q" and "q * ln 1024 \<le> (1 + 1 / 2 ^ 50) * ln (real b)"
proof -
  define u :: real where "u = 1 / 2 ^ 52"
  define K :: real where "K = ln 1024"
  define l where "l = ln (real b)"
  define a where "a = Math_log fp (real b)"
  define k where "k = Math_log fp 1024"
  have u: "0 < u" "u \<le> 1 / 5" by (simp_all add: u_def)
  have K: "0 < K" by (simp add: K_def)
  have l: "0 \<le> l" using b by (simp add: l_def)
  have "\<bar>a - l\<bar> \<le> l * u"
    using acc b unfolding accurate_def a_def l_def u_def by simp
  then have a: "(1 - u) * l \<le> a" "a \<le> (1 + u) * l"
    by (simp_all add: abs_le_iff algebra_simps)
  have "\<bar>k - K\<bar> \<le> K * u"
    using acc unfolding accurate_def k_def K_def u_def by simp
  then have k: "(1 - u) * K \<le> k" "k \<le> (1 + u) * K"
    by (simp_all add: abs_le_iff algebra_simps)
  have a0: "0 \<le> a"
  proof -
    have "0 \<le> (1 - u) * l" using u l by simp
    then show ?thesis using a(1) by linarith
  qed
  have k0: "0 < k"
  proof -
    have "0 < (1 - u) * K" using K u by simp
    then show ?thesis using k(1) by linarith
  qed
  define r where "r = a / k"
  have "\<bar>q - r\<bar> \<le> r * u"
    using acc a0 k0 unfolding accurate_def q_def a_def k_def u_def r_def by simp
  then have q: "(1 - u) * r \<le> q" "q \<le> (1 + u) * r"
    by (simp_all add: abs_le_iff algebra_simps)
  have r0: "0 \<le> r" using a0 k0 by (simp add: r_def)
  have rk: "r * k = a" using k0 by (simp add: r_def)
  show "0 \<le> q"
  proof -
    have "0 \<le> (1 - u) * r" using r0 u by simp
    then show ?thesis using q(1) by linarith
  qed
  have "q * k \<le> (1 + u) * a"
  proof -
    have "q * k \<le> ((1 + u) * r) * k"
      using q(2) k0 by (intro mult_right_mono) simp_all
    also have "\<dots> = (1 + u) * (r * k)" by (simp only: mult.assoc)
    also have "\<dots> = (1 + u) * a" by (simp only: rk)
    finally show ?thesis .
  qed
  moreover have "(1 + u) * a \<le> (1 + u) * ((1 + u) * l)"
    using a(2) u by (intro mult_left_mono) simp_all
  ultimately have 1: "q * k \<le> (1 + u) * ((1 + u) * l)" by linarith
  have 2: "q * ((1 - u) * K) \<le> q * k"
    using k(1) \<open>0 \<le> q\<close> by (intro mult_left_mono) simp_all
  have 3: "(1 + u) * ((1 + u) * l) \<le> (1 - u) * ((1 + 4 * u) * l)"
  proof -
    have "(1 - u) * (1 + 4 * u) - (1 + u) * (1 + u) = u * (1 - 5 * u)"
      by (simp add: algebra_simps power2_eq_square)
    moreover have "0 \<le> u * (1 - 5 * u)" using u by simp
    ultimately have "(1 + u) * (1 + u) \<le> (1 - u) * (1 + 4 * u)" by linarith
    then have "((1 + u) * (1 + u)) * l \<le> ((1 - u) * (1 + 4 * u)) * l"
      using l by (intro mult_right_mono) simp_all
    then show ?thesis by (simp add: mult.assoc)
  qed
  have "(1 - u) * (q * K) \<le> (1 - u) * ((1 + 4 * u) * l)"
    using 1 2 3 by (simp add: algebra_simps)
  then have "q * K \<le> (1 + 4 * u) * l"
    using u by (simp add: mult_le_cancel_left_pos)
  moreover have "1 + 4 * u = 1 + 1 / 2 ^ 50" by (simp add: u_def)
  ultimately show "q * ln 1024 \<le> (1 + 1 / 2 ^ 50) * ln (real b)"
    by (simp add: K_def l_def)
qed

lemma unit_index_bounds:
  assumes acc: "accurate fp" and b: "1 \<le> b" "b + d \<le> 1024 ^ n"
    and margin: "10 * real n * 1024 ^ n < 2 ^ 50 * real d"
  shows "0 \<le> unit_index fp b \<and> unit_index fp b < int n"
proof -
  define q where "q = divide fp (Math_log fp (real b)) (Math_log fp 1024)"
  define K :: real where "K = ln 1024"
  define c :: real where "c = 1 / 2 ^ 50"
  define e where "e = real d / 1024 ^ n"
  have K: "0 < K" "K \<le> 10" using ln_1024_bounds by (simp_all add: K_def)
  have q0: "0 \<le> q" and qK: "q * K \<le> (1 + c) * ln (real b)"
    using computed_quotient_bounds [OF acc b(1)] by (simp_all add: q_def K_def c_def)
  have l: "ln (real b) \<le> real n * K - e"
    using ln_below_power [OF b] by (simp add: K_def e_def)
  have c: "0 < c" by (simp add: c_def)
  have e: "c * real n * 10 < e"
  proof -
    define P :: real where "P = 1024 ^ n"
    define T :: real where "T = 2 ^ 50"
    have P: "0 < P" and T: "0 < T" by (simp_all add: P_def T_def)
    have "10 * real n * P < T * real d" using margin by (simp add: P_def T_def)
    then have "10 * real n * P / (T * P) < T * real d / (T * P)"
      using P T by (intro divide_strict_right_mono) simp_all
    moreover have "10 * real n * P / (T * P) = 10 * real n / T" using P by simp
    moreover have "T * real d / (T * P) = real d / P" using T by simp
    ultimately have "10 * real n / T < real d / P" by simp
    then show ?thesis by (simp add: c_def e_def P_def T_def)
  qed
  have "c * real n * K \<le> c * real n * 10"
    using K(2) c by (intro mult_left_mono) simp_all
  then have ce: "c * real n * K < e" using e by linarith
  have "e \<le> (1 + c) * e"
  proof -
    have "0 \<le> e" by (simp add: e_def)
    then have "0 \<le> c * e" using c by simp
    then show ?thesis by (simp add: algebra_simps)
  qed
  then have "(1 + c) * (real n * K - e) < real n * K"
    using ce by (simp add: algebra_simps)
  moreover have "(1 + c) * ln (real b) \<le> (1 + c) * (real n * K - e)"
    using l c by (intro mult_left_mono) simp_all
  ultimately have "q * K < real n * K" using qK by linarith
  then have "q < real n" using K(1) by simp
  then have "\<lfloor>q\<rfloor> < int n" by (simp add: floor_less_iff)
  moreover have "0 \<le> \<lfloor>q\<rfloor>" using q0 by simp
  ultimately show ?thesis by (simp add: unit_index_def q_def)
qed

lemma accurate_exact: "accurate exact_arithmetic"
  by (simp add: accurate_def exact_arithmetic_def)

lemma formatFileSize_unit:
  assumes "0 \<le> unit_index fp b" "unit_index fp b < int (length sizes)" "1 \<le> b"
  shows "\<exists>num. formatFileSize fp sizes b = num @ '' '' @ sizes ! nat (unit_index fp b)"
proof -
  have "nat (unit_index fp b) < length sizes"
    using assms(1,2) by (simp add: nat_less_iff)
  then have "index_or_undefined sizes (unit_index fp b) = sizes ! nat (unit_index fp b)"
    using assms(1) by (simp add: index_or_undefined_def)
  then show ?thesis using assms(3) by (simp add: formatFileSize_def Let_def)
qed

text \<open>Without rounding, the index of a byte count is the power of 1024 it has reached.\<close>

lemma exact_unit_index:
  assumes "1024 ^ i \<le> b" "b < 1024 ^ Suc i"
  shows "unit_index exact_arithmetic b = int i"
proof -
  have pos: "0 < real b"
    using assms(1) by (metis less_le_trans of_nat_0_less_iff zero_less_numeral zero_less_power)
  have l: "0 < ln (1024::real)" by simp
  have "real (1024 ^ i) \<le> real b" using assms(1) by (simp only: of_nat_le_iff)
  then have "ln ((1024::real) ^ i) \<le> ln (real b)" using pos by simp
  then have lo: "real i * ln 1024 \<le> ln (real b)" by (simp add: ln_realpow)
  have "real b < real (1024 ^ Suc i)" using assms(2) by (simp only: of_nat_less_iff)
  then have "ln (real b) < ln ((1024::real) ^ Suc i)" using pos by simp
  moreover have "ln ((1024::real) ^ Suc i) = real (Suc i) * ln 1024" by (rule ln_realpow)
  ultimately have hi: "ln (real b) < (real i + 1) * ln 1024" by (simp add: add.commute)
  have a: "real i \<le> ln (real b) / ln 1024" using lo l by (simp add: le_divide_eq)
  have b: "ln (real b) / ln 1024 < real i + 1" using hi l by (simp add: divide_less_eq)
  show ?thesis
    unfolding unit_index_def exact_arithmetic_def using a b by (intro floor_unique) auto
qed

lemma ln_2_ge_half: "1 / 2 \<le> ln (2::real)"
proof -
  have "ln (1 / 2 :: real) \<le> 1 / 2 - 1" by (rule ln_le_minus_one) simp
  moreover have "ln (1 / 2 :: real) = - ln 2" by (simp add: ln_div)
  ultimately show ?thesis by simp
qed

lemma accurate_rounded: "accurate rounded_arithmetic"
proof -
  define y :: real where "y = 2 ^ 50 - 1"
  have y: "0 < y" "2 ^ 49 \<le> y" "2 ^ 52 \<le> 5 * y" by (simp_all add: y_def)
  have "ln ((2::real) ^ 49) \<le> ln y" using y by (simp del: ln_le_cancel_iff add: ln_mono)
  moreover have "ln ((2::real) ^ 49) = real 49 * ln 2" by (rule ln_realpow)
  ultimately have lny: "5 \<le> ln y" using ln_2_ge_half by simp
  have "ln ((2::real) ^ 50) - ln y = ln (2 ^ 50 / y)" using y by (simp add: ln_div)
  also have "2 ^ 50 / y = 1 + 1 / y" using y by (simp add: y_def field_simps)
  also have "ln (1 + 1 / y) \<le> 1 / y" using y by (intro ln_add_one_self_le_self) simp
  finally have up: "ln ((2::real) ^ 50) - ln y \<le> 1 / y" .
  have lo: "0 \<le> ln ((2::real) ^ 50) - ln y"
  proof -
    have "ln y \<le> ln ((2::real) ^ 50)" using y by (simp del: ln_le_cancel_iff add: ln_mono y_def)
    then show ?thesis by simp
  qed
  have "1 / y \<le> ln y / 2 ^ 52"
  proof -
    have "2 ^ 52 \<le> ln y * y"
    proof -
      have "5 * y \<le> ln y * y" using lny y by (intro mult_right_mono) simp_all
      then show ?thesis using y(3) by linarith
    qed
    then show ?thesis using y by (simp add: field_simps)
  qed
  then have special: "\<bar>ln ((2::real) ^ 50) - ln y\<bar> \<le> ln y / 2 ^ 52"
    using up lo by simp
  have log: "\<bar>Math_log rounded_arithmetic x - ln x\<bar> \<le> ln x / 2 ^ 52" if "1 \<le> x" for x
  proof (cases "x = 2 ^ 50 - 1")
    case True
    then show ?thesis using special by (simp add: rounded_arithmetic_def y_def)
  next
    case False
    then show ?thesis using that by (simp add: rounded_arithmetic_def)
  qed
  have dv: "\<bar>divide rounded_arithmetic a b - a / b\<bar> \<le> (a / b) / 2 ^ 52"
    if "0 \<le> a" "0 < b" for a b
    using that by (simp add: rounded_arithmetic_def)
  show ?thesis unfolding accurate_def using log dv by blast
qed

lemma rounded_unit_index: "unit_index rounded_arithmetic (1024 ^ 5 - 1) = 5"
proof -
  have "ln ((2::real) ^ 50) = real 50 * ln 2" by (rule ln_realpow)
  moreover have "ln (1024::real) = ln (2 ^ 10)" by simp
  moreover have "ln ((2::real) ^ 10) = real 10 * ln 2" by (rule ln_realpow)
  ultimately have "ln ((2::real) ^ 50) / ln 1024 = 5" by simp
  moreover have "real (1024 ^ 5 - 1) = 2 ^ 50 - 1" by simp
  ultimately have "divide rounded_arithmetic (Math_log rounded_arithmetic (real (1024 ^ 5 - 1)))
      (Math_log rounded_arithmetic 1024) = 5"
    by (simp add: rounded_arithmetic_def)
  then show ?thesis by (simp add: unit_index_def)
qed

text \<open>
  Claim C10 as stated fails for the upload manager just below \<open>1024 ^ 5\<close>. Doubles
  cannot tell the logarithm of \<open>2 ^ 50 - 1\<close> from that of \<open>2 ^ 50\<close>, the quotient by the
  logarithm of 1024 is then 5, and a file of \<open>1024 ^ 5 - 1\<close> bytes is printed with the
  unit \<open>undefined\<close>.
\<close>

theorem formatFileSize_counterexample:
  "accurate rounded_arithmetic \<and>
   FileUploadManager_formatFileSize rounded_arithmetic (1024 ^ 5 - 1) = ''1 undefined''"
proof -
  define b :: nat where "b = 1024 ^ 5 - 1"
  have i: "unit_index rounded_arithmetic b = 5"
    unfolding b_def by (rule rounded_unit_index)
  have ops: "divide rounded_arithmetic = (/)" "Math_pow rounded_arithmetic = (powr)"
    by (simp_all add: rounded_arithmetic_def)
  have b: "b \<noteq> 0" by (simp add: b_def)
  have shape: "formatFileSize rounded_arithmetic FileUploadManager_sizes b =
      parseFloat_toString (toFixed2 (real b / 1024 powr 5)) @ '' '' @
      index_or_undefined FileUploadManager_sizes 5"
    using b by (simp add: formatFileSize_def i ops)
  have hundredths: "toFixed2 (real b / 1024 powr 5) = 100"
    by (simp add: toFixed2_def b_def)
  have "formatFileSize rounded_arithmetic FileUploadManager_sizes b = ''1 undefined''"
    unfolding shape hundredths
    by (simp add: FileUploadManager_sizes_def index_or_undefined_def parseFloat_toString_def
        digits_small digit_char_def)
  then show ?thesis
    using accurate_rounded by (simp add: FileUploadManager_formatFileSize_def b_def)
qed

text \<open>
  Claim C10, amended. \<^verbatim>\<open>formatFileSize(0)\<close> is \<open>0 Bytes\<close>. For every integer
  \<open>bytes\<close> from 1 up to, not including, \<open>1024 ^ 4\<close>, the unit index
  \<^verbatim>\<open>Math.floor(Math.log(bytes) / Math.log(1024))\<close> computed by any accurate arithmetic
  is an index of the four-unit array of \<^verbatim>\<open>ARQVApp.formatFileSize\<close>, so the result ends
  in one of its units; the upload manager's variant, with five units, does so for
  \<open>bytes\<close> up to \<open>1024 ^ 5 - 64\<close>.
\<close>

theorem formatFileSize_total:
  assumes "accurate fp"
  shows "ARQVApp_formatFileSize fp 0 = ''0 Bytes'' \<and>
   (1 \<le> bytes \<and> bytes < 1024 ^ 4 \<longrightarrow>
      0 \<le> unit_index fp bytes \<and> unit_index fp bytes < int (length ARQVApp_sizes) \<and>
      (\<exists>num. ARQVApp_formatFileSize fp bytes =
         num @ '' '' @ ARQVApp_sizes ! nat (unit_index fp bytes))) \<and>
   (1 \<le> bytes \<and> bytes + 64 \<le> 1024 ^ 5 \<longrightarrow>
      0 \<le> unit_index fp bytes \<and> unit_index fp bytes < int (length FileUploadManager_sizes) \<and>
      (\<exists>num. FileUploadManager_formatFileSize fp bytes =
         num @ '' '' @ FileUploadManager_sizes ! nat (unit_index fp bytes)))"
proof -
  have zero: "ARQVApp_formatFileSize fp 0 = ''0 Bytes''"
    by (simp add: ARQVApp_formatFileSize_def formatFileSize_def)
  have four: "length ARQVApp_sizes = 4" by (simp add: ARQVApp_sizes_def)
  have five: "length FileUploadManager_sizes = 5" by (simp add: FileUploadManager_sizes_def)
  have a: "0 \<le> unit_index fp bytes \<and> unit_index fp bytes < int (length ARQVApp_sizes) \<and>
      (\<exists>num. ARQVApp_formatFileSize fp bytes =
         num @ '' '' @ ARQVApp_sizes ! nat (unit_index fp bytes))"
    if h: "1 \<le> bytes \<and> bytes < 1024 ^ 4"
  proof -
    have "0 \<le> unit_index fp bytes \<and> unit_index fp bytes < int 4"
      using h by (intro unit_index_bounds [OF assms, where d = 1]) simp_all
    then show ?thesis
      using h formatFileSize_unit [of fp bytes ARQVApp_sizes]
      by (simp add: four ARQVApp_formatFileSize_def)
  qed
  have b: "0 \<le> unit_index fp bytes \<and> unit_index fp bytes < int (length FileUploadManager_sizes) \<and>
      (\<exists>num. FileUploadManager_formatFileSize fp bytes =
         num @ '' '' @ FileUploadManager_sizes ! nat (unit_index fp bytes))"
    if h: "1 \<le> bytes \<and> bytes + 64 \<le> 1024 ^ 5"
  proof -
    have "0 \<le> unit_index fp bytes \<and> unit_index fp bytes < int 5"
      using h by (intro unit_index_bounds [OF assms, where d = 64]) simp_all
    then show ?thesis
      using h formatFileSize_unit [of fp bytes FileUploadManager_sizes]
      by (simp add: five FileUploadManager_formatFileSize_def)
  qed
  show ?thesis using zero a b by blast
qed

theorem formatFileSize_total_witness:
  "accurate exact_arithmetic \<and> (1::nat) \<le> 1536 \<and> (1536::nat) < 1024 ^ 4 \<and>
   unit_index exact_arithmetic 1536 = 1 \<and>
   unit_index exact_arithmetic 1536 < int (length ARQVApp_sizes) \<and>
   ARQVApp_formatFileSize exact_arithmetic 1536 = ''1.5 KB'' \<and>
   FileUploadManager_formatFileSize exact_arithmetic 1536 = ''1.5 KB''"
proof -
  have i: "unit_index exact_arithmetic 1536 = int 1" by (rule exact_unit_index) simp_all
  have "unit_index exact_arithmetic 1536 < int (length ARQVApp_sizes)"
    using formatFileSize_total [OF accurate_exact, of 1536] by simp
  moreover have "ARQVApp_formatFileSize exact_arithmetic 1536 = ''1.5 KB''"
    using i by (simp add: ARQVApp_formatFileSize_def formatFileSize_def ARQVApp_sizes_def
        toFixed2_def parseFloat_toString_def index_or_undefined_def digits_small digit_char_def
        exact_arithmetic_def)
  moreover have "FileUploadManager_formatFileSize exact_arithmetic 1536 = ''1.5 KB''"
    using i by (simp add: FileUploadManager_formatFileSize_def formatFileSize_def
        FileUploadManager_sizes_def toFixed2_def parseFloat_toString_def index_or_undefined_def
        digits_small digit_char_def exact_arithmetic_def)
  ultimately show ?thesis using i accurate_exact by simp
qed

section \<open>Upload manager\<close>

lemma validateFile_Valid_iff:
  "validateFile file = Valid \<longleftrightarrow>
     file_size file \<le> 16 * 1024 * 1024 \<and>
     (file_type file \<in> set allowedTypes \<or> fileExtension file \<in> set allowedExtensions)"
  by (auto simp: validateFile_def maxFileSize_def Let_def)

lemma uploadFile_requests:
  "up_requests (uploadFile file p) = up_requests p \<or>
   up_requests (uploadFile file p) = up_requests p @ [Request POST ''/api/upload_attachment'']"
  by (simp add: uploadFile_def Let_def split: option.splits)

lemma addFileToUI_requests: "up_requests (addFileToUI shown file p) = up_requests p"
  by (simp add: addFileToUI_def split: option.splits)

text \<open>
  Claim C4. For every file handed to \<^verbatim>\<open>processFile\<close>, an upload request
  (\<open>POST /api/upload_attachment\<close>) is issued only if the file passes validation: its size
  is at most \<open>16 * 1024 * 1024\<close> bytes and its type is an allowed type or its lower-cased
  extension an allowed extension; a file failing either check gets one error message and
  no request.
\<close>

theorem processFile_uploads_only_valid:
  "(up_requests (processFile shown file p) \<noteq> up_requests p \<longrightarrow>
      file_size file \<le> 16 * 1024 * 1024 \<and>
      (file_type file \<in> set allowedTypes \<or>
       ''.'' @ toLowerCase (split_pop CHR ''.'' (file_name file)) \<in> set allowedExtensions) \<and>
      up_requests (processFile shown file p) =
        up_requests p @ [Request POST ''/api/upload_attachment'']) \<and>
   (\<not> (file_size file \<le> 16 * 1024 * 1024 \<and>
        (file_type file \<in> set allowedTypes \<or>
         ''.'' @ toLowerCase (split_pop CHR ''.'' (file_name file)) \<in> set allowedExtensions)) \<longrightarrow>
      up_requests (processFile shown file p) = up_requests p \<and>
      (\<exists>message. up_errors (processFile shown file p) = up_errors p @ [message]))"
proof (cases "validateFile file")
  case Valid
  then have ok: "file_size file \<le> 16 * 1024 * 1024 \<and>
      (file_type file \<in> set allowedTypes \<or>
       ''.'' @ toLowerCase (split_pop CHR ''.'' (file_name file)) \<in> set allowedExtensions)"
    by (simp add: validateFile_Valid_iff fileExtension_def)
  have "processFile shown file p = uploadFile file (addFileToUI shown file p)"
    using Valid by (simp add: processFile_def)
  then show ?thesis
    using ok uploadFile_requests [of "file" "addFileToUI shown file p"]
    by (auto simp: addFileToUI_requests)
next
  case (Invalid message)
  then have bad: "\<not> (file_size file \<le> 16 * 1024 * 1024 \<and>
      (file_type file \<in> set allowedTypes \<or>
       ''.'' @ toLowerCase (split_pop CHR ''.'' (file_name file)) \<in> set allowedExtensions))"
    using validateFile_Valid_iff [of "file"] by (simp add: fileExtension_def)
  have "processFile shown file p = p\<lparr>up_errors := up_errors p @ [message]\<rparr>"
    using Invalid by (simp add: processFile_def)
  then show ?thesis using bad by simp
qed

theorem processFile_uploads_only_valid_witness:
  "up_requests (processFile (\<lambda>name. name)
      \<lparr>file_name = ''Plano.2024.PDF'', file_size = 1024, file_type = ''''\<rparr>
      \<lparr>uploadedFiles = Some [], up_requests = [], up_errors = []\<rparr>) =
     [Request POST ''/api/upload_attachment''] \<and>
   ''.'' @ toLowerCase (split_pop CHR ''.'' ''Plano.2024.PDF'') \<in> set allowedExtensions \<and>
   up_requests (processFile (\<lambda>name. name)
      \<lparr>file_name = ''video.mp4'', file_size = 1024, file_type = ''video/mp4''\<rparr>
      \<lparr>uploadedFiles = Some [], up_requests = [], up_errors = []\<rparr>) = [] \<and>
   length (up_errors (processFile (\<lambda>name. name)
      \<lparr>file_name = ''video.mp4'', file_size = 1024, file_type = ''video/mp4''\<rparr>
      \<lparr>uploadedFiles = Some [], up_requests = [], up_errors = []\<rparr>)) = 1 \<and>
   up_requests (processFile (\<lambda>name. name)
      \<lparr>file_name = ''big.pdf'', file_size = 16 * 1024 * 1024 + 1, file_type = ''application/pdf''\<rparr>
      \<lparr>uploadedFiles = Some [], up_requests = [], up_errors = []\<rparr>) = []"
proof -
  have ext: "toLowerCase (split_pop CHR ''.'' ''Plano.2024.PDF'') = ''pdf''"
    by (simp add: toLowerCase_def split_pop_def toLowerCase_char_def)
  have ext': "toLowerCase (split_pop CHR ''.'' ''video.mp4'') = ''mp4''"
    by (simp add: toLowerCase_def split_pop_def toLowerCase_char_def)
  have sent: "up_requests (processFile (\<lambda>name. name)
      \<lparr>file_name = ''Plano.2024.PDF'', file_size = 1024, file_type = ''''\<rparr>
      \<lparr>uploadedFiles = Some [], up_requests = [], up_errors = []\<rparr>) =
     [Request POST ''/api/upload_attachment'']"
    by (simp add: processFile_def validateFile_def maxFileSize_def fileExtension_def ext
        allowedTypes_def allowedExtensions_def addFileToUI_def uploadFile_def)
  show ?thesis
    using sent
      processFile_uploads_only_valid [of "\<lambda>name. name"
        "\<lparr>file_name = ''Plano.2024.PDF'', file_size = 1024, file_type = ''''\<rparr>"
        "\<lparr>uploadedFiles = Some [], up_requests = [], up_errors = []\<rparr>"]
      processFile_uploads_only_valid [of "\<lambda>name. name"
        "\<lparr>file_name = ''video.mp4'', file_size = 1024, file_type = ''video/mp4''\<rparr>"
        "\<lparr>uploadedFiles = Some [], up_requests = [], up_errors = []\<rparr>"]
      processFile_uploads_only_valid [of "\<lambda>name. name"
        "\<lparr>file_name = ''big.pdf'', file_size = 16 * 1024 * 1024 + 1, file_type = ''application/pdf''\<rparr>"
        "\<lparr>uploadedFiles = Some [], up_requests = [], up_errors = []\<rparr>"]
    by (auto simp: ext ext' allowedTypes_def allowedExtensions_def)
qed

section \<open>Result rendering\<close>








text \<open>
  Another section renderer has no fallback at all for the fields of a phase:
  \<^verbatim>\<open>displayPrePitchSection\<close> prints \<open>undefined\<close> for an absent \<open>objetivo\<close> or
  \<open>tempo\<close>, and nothing for absent \<open>tecnicas\<close>.
\<close>

lemma displayPrePitchSection_prints_undefined:
  "phase_card (JObj [(''fase'', JStr ''Quebra'')]) =
     Inr (nl 20 @ ''<div class=\"phase-card\">'' @
          nl 24 @ ''<h5>Quebra</h5>'' @
          nl 24 @ ''<p><strong>Objetivo:</strong> undefined</p>'' @
          nl 24 @ ''<p><strong>Tempo:</strong> undefined</p>'' @
          nl 24 @
          nl 20 @ ''</div>'' @
          nl 16) \<and>
   (\<exists>markup.
      displayPrePitchSection
        (JObj [(''orquestracao_emocional'',
                JObj [(''sequencia_psicologica'', JArr [JObj [(''fase'', JStr ''Quebra'')]])])])
        [''prePitchResults'' \<mapsto> []] = Inr [''prePitchResults'' \<mapsto> markup] \<and>
      sublist ''<p><strong>Objetivo:</strong> undefined</p>'' markup)"
proof -
  have phase: "phase_card (JObj [(''fase'', JStr ''Quebra'')]) =
     Inr (nl 20 @ ''<div class=\"phase-card\">'' @
          nl 24 @ ''<h5>Quebra</h5>'' @
          nl 24 @ ''<p><strong>Objetivo:</strong> undefined</p>'' @
          nl 24 @ ''<p><strong>Tempo:</strong> undefined</p>'' @
          nl 24 @
          nl 20 @ ''</div>'' @
          nl 16)"
    by (simp add: phase_card_def)
  define before where "before =
    nl 12 @ ''<div class=\"result-section\">'' @
    nl 16 @ ''<h3 class=\"section-title\">'' @ [CHR 0xF0, CHR 0x9F, CHR 0x8E, CHR 0xAF] @
             '' Pr'' @ [CHR 0xC3, CHR 0xA9] @ ''-Pitch Invis'' @ [CHR 0xC3, CHR 0xAD] @
             ''vel</h3>'' @
    nl 16 @ ''<div class=\"pre-pitch-content\">'' @
    nl 8 @
    nl 16 @ ''<div class=\"emotional-orchestration\">'' @
    nl 20 @ ''<h4>'' @ [CHR 0xF0, CHR 0x9F, CHR 0x8E, CHR 0xBC] @ '' Orquestra'' @
             [CHR 0xC3, CHR 0xA7, CHR 0xC3, CHR 0xA3] @ ''o Emocional</h4>'' @
    nl 20 @ ''<div class=\"sequence-timeline\">'' @
    nl 12 @
    nl 20 @ ''<div class=\"phase-card\">'' @
    nl 24 @ ''<h5>Quebra</h5>'' @
    nl 24"
  define after where "after =
    nl 24 @ ''<p><strong>Tempo:</strong> undefined</p>'' @
    nl 24 @
    nl 20 @ ''</div>'' @
    nl 16 @
    nl 20 @ ''</div>'' @
    nl 16 @ ''</div>'' @
    nl 12 @
    nl 16 @ ''</div>'' @
    nl 12 @ ''</div>'' @
    nl 8"
  have "displayPrePitchSection
        (JObj [(''orquestracao_emocional'',
                JObj [(''sequencia_psicologica'', JArr [JObj [(''fase'', JStr ''Quebra'')]])])])
        [''prePitchResults'' \<mapsto> []] =
      Inr [''prePitchResults'' \<mapsto>
             before @ ''<p><strong>Objetivo:</strong> undefined</p>'' @ after]"
    by (simp add: displayPrePitchSection_def prePitch_markup_def phase before_def after_def)
  moreover have "sublist ''<p><strong>Objetivo:</strong> undefined</p>''
      (before @ ''<p><strong>Objetivo:</strong> undefined</p>'' @ after)"
    by (rule sublist_appendI)
  ultimately show ?thesis using phase by blast
qed



section \<open>The requests of the page scripts\<close>

text \<open>
  Claim C5 as stated fails: \<^verbatim>\<open>validateAPIs\<close> posts to \<open>/api/validate_apis\<close>, which is
  none of the seven endpoints.
\<close>

theorem validateAPIs_endpoint_counterexample:
  "request_of AsyncAnalysisManager_validateAPIs = Request POST ''/api/validate_apis'' \<and>
   \<not> spec_endpoint (request_of AsyncAnalysisManager_validateAPIs)"
  by simp

text \<open>
  The asynchronous manager asks for its PDF at \<open>/api/generate_pdf\<close>, where the
  synchronous manager and the Service Worker name \<open>/generate-pdf\<close>.
\<close>

lemma AsyncAnalysisManager_downloadPDF_endpoint:
  "request_of AsyncAnalysisManager_downloadPDF = Request POST ''/api/generate_pdf'' \<and>
   \<not> spec_endpoint (request_of AsyncAnalysisManager_downloadPDF)"
  by simp

text \<open>
  Claim C5, amended. Every request a page script issues, the PDF request of
  \<^verbatim>\<open>AsyncAnalysisManager.downloadPDF\<close> set aside, targets one of the seven endpoints of
  the specification, or \<open>POST /api/validate_apis\<close>, or
  \<open>GET /api/analysis/:id/download?format=:format\<close>; \<^verbatim>\<open>AnalysisManager.downloadPdf\<close>
  requests its PDF with \<open>POST /generate-pdf\<close>.
\<close>

theorem frontend_requests:
  "(site \<noteq> AsyncAnalysisManager_downloadPDF \<longrightarrow>
      spec_endpoint (request_of site) \<or>
      request_of site = Request POST ''/api/validate_apis'' \<or>
      (\<exists>analysisId format. request_of site =
         Request GET (''/api/analysis/'' @ analysisId @ ''/download?format='' @ format))) \<and>
   request_of AnalysisManager_downloadPdf = Request POST ''/generate-pdf''"
  by (cases site) auto

theorem frontend_requests_witness:
  "AsyncAnalysisManager_statusCheck (JStr ''7c9e'') \<noteq> AsyncAnalysisManager_downloadPDF \<and>
   request_of (AsyncAnalysisManager_statusCheck (JStr ''7c9e'')) =
     Request GET ''/api/task_status/7c9e'' \<and>
   spec_endpoint (request_of (AsyncAnalysisManager_statusCheck (JStr ''7c9e''))) \<and>
   request_of (AsyncAnalysisManager_downloadAnalysis (JNum 12) (JStr ''pdf'')) =
     Request GET ''/api/analysis/12/download?format=pdf''"
  using frontend_requests [of "AsyncAnalysisManager_statusCheck (JStr ''7c9e'')"]
    frontend_requests [of "AsyncAnalysisManager_downloadAnalysis (JNum 12) (JStr ''pdf'')"]
  by (simp add: int_toString_def digits_small digits_large digit_char_def)

section \<open>Synchronous analysis\<close>







section \<open>Service Worker\<close>

lemma str_includes_sublist: "str_includes s t \<longleftrightarrow> sublist t s"
  by (induction s) (auto simp: sublist_Cons_right)

lemma str_includes_part:
  assumes "str_includes url pattern" "sublist t pattern"
  shows "str_includes url t"
  using assms unfolding str_includes_sublist
  by (meson sublist_order.order_trans)

lemma slash_is_static: "str_includes url ''/'' \<Longrightarrow> isStaticFile url"
  by (simp add: isStaticFile_def STATIC_FILES_def)

text \<open>
  Static assets are served cache first: a cached response is returned without the
  network; otherwise the network response is returned and, when \<open>ok\<close>, stored in the
  static cache.
\<close>

lemma static_file_cache_first:
  assumes "req_method request = ''GET''" "prefix ''http'' (req_url request)"
    and "isStaticFile (req_url request)"
  shows "fetch_listener request = Some CacheFirst"
    and "caches_match caches (req_url request) = Some cached \<Longrightarrow>
           serve network request caches =
             \<lparr>answer = Some cached, from_cache = True, network_contacted = False,
              caches_after = caches\<rparr>"
    and "caches_match caches (req_url request) = None \<Longrightarrow>
         network (req_url request) = Some r \<Longrightarrow> resp_ok r \<Longrightarrow>
           answer (serve network request caches) = Some r \<and>
           static_cache (caches_after (serve network request caches)) (req_url request) = Some r"
  using assms by (simp_all add: fetch_listener_def serve_def cacheFirst_def)

text \<open>
  The pattern \<open>/\<close> of \<open>STATIC_FILES\<close> occurs in every analysis URL, so the listener
  classifies each of them as a static file before it asks \<^verbatim>\<open>isAnalysisRequest\<close>: the
  network-only branch is never taken.
\<close>

lemma analysis_request_is_static: "isAnalysisRequest url \<Longrightarrow> isStaticFile url"
proof -
  assume "isAnalysisRequest url"
  then consider "str_includes url ''/api/analyze''" | "str_includes url ''/api/upload_attachment''"
    | "str_includes url ''/generate-pdf''"
    by (auto simp: isAnalysisRequest_def)
  then have "str_includes url ''/''"
  proof cases
    case 1
    moreover have "sublist ''/'' ''/api/analyze''" by (rule prefix_imp_sublist) simp
    ultimately show ?thesis by (rule str_includes_part)
  next
    case 2
    moreover have "sublist ''/'' ''/api/upload_attachment''" by (rule prefix_imp_sublist) simp
    ultimately show ?thesis by (rule str_includes_part)
  next
    case 3
    moreover have "sublist ''/'' ''/generate-pdf''" by (rule prefix_imp_sublist) simp
    ultimately show ?thesis by (rule str_includes_part)
  qed
  then show ?thesis by (rule slash_is_static)
qed

lemma networkOnly_unreachable: "fetch_listener request \<noteq> Some NetworkOnly"
  using analysis_request_is_static [of "req_url request"]
  by (auto simp: fetch_listener_def)

text \<open>
  Claim C3 holds of the static assets and fails of the analysis endpoints. A \<open>GET\<close> of
  \<open>http://localhost:5000/generate-pdf\<close> is served cache first: the first request goes to
  the network and its response is stored in the static cache, the second is answered
  from that cache and the network is not contacted.
\<close>

theorem analysis_request_answered_from_cache:
  "fetch_listener \<lparr>req_method = ''GET'', req_url = ''http://localhost:5000/generate-pdf''\<rparr> =
     Some CacheFirst \<and>
   caches_after (serve (\<lambda>url. Some \<lparr>resp_ok = True, resp_status = 200, resp_body = ''first''\<rparr>)
       \<lparr>req_method = ''GET'', req_url = ''http://localhost:5000/generate-pdf''\<rparr>
       \<lparr>static_cache = Map.empty, dynamic_cache = Map.empty\<rparr>) =
     \<lparr>static_cache = [''http://localhost:5000/generate-pdf'' \<mapsto>
                        \<lparr>resp_ok = True, resp_status = 200, resp_body = ''first''\<rparr>],
      dynamic_cache = Map.empty\<rparr> \<and>
   serve (\<lambda>url. Some \<lparr>resp_ok = True, resp_status = 200, resp_body = ''second''\<rparr>)
       \<lparr>req_method = ''GET'', req_url = ''http://localhost:5000/generate-pdf''\<rparr>
       \<lparr>static_cache = [''http://localhost:5000/generate-pdf'' \<mapsto>
                          \<lparr>resp_ok = True, resp_status = 200, resp_body = ''first''\<rparr>],
        dynamic_cache = Map.empty\<rparr> =
     \<lparr>answer = Some \<lparr>resp_ok = True, resp_status = 200, resp_body = ''first''\<rparr>, from_cache = True,
      network_contacted = False,
      caches_after = \<lparr>static_cache = [''http://localhost:5000/generate-pdf'' \<mapsto>
                                        \<lparr>resp_ok = True, resp_status = 200, resp_body = ''first''\<rparr>],
                      dynamic_cache = Map.empty\<rparr>\<rparr>"
proof -
  have s: "isStaticFile ''http://localhost:5000/generate-pdf''"
    by (rule slash_is_static) simp
  have l: "fetch_listener \<lparr>req_method = ''GET'', req_url = ''http://localhost:5000/generate-pdf''\<rparr> =
     Some CacheFirst"
    using s by (simp add: fetch_listener_def)
  show ?thesis
    using l by (simp add: serve_def cacheFirst_def caches_match_def)
qed

section \<open>Database migration\<close>

text \<open>On \<open>analyses\<close> the trigger does what its name says.\<close>

lemma analyses_update_sets_updated_at:
  assumes "dom OLD = set (columns analyses)" "set (map fst assignments) \<subseteq> set (columns analyses)"
    and "sql_update analyses now others OLD assignments = Inr NEW"
  shows "NEW ''updated_at'' = Some (SqlTimestamp now)"
proof -
  have "''updated_at'' \<in> dom (OLD ++ map_of assignments)"
    using assms(1) by simp
  then have "run_triggers (before_update analyses) now (OLD ++ map_of assignments) =
      Inr ((OLD ++ map_of assignments)(''updated_at'' \<mapsto> SqlTimestamp now))"
    by (simp add: update_updated_at_column_def)
  then show ?thesis
    using assms(3)
    by (auto simp: sql_update_def check_not_null_def check_unique_def
        split: option.splits sum.splits)
qed

text \<open>
  On \<open>sessions\<close> the trigger \<open>update_sessions_last_activity\<close> executes the same function,
  and \<open>sessions\<close> has no column \<open>updated_at\<close>: every update of a session row fails, and
  \<open>last_activity\<close> is never set.
\<close>

lemma sessions_update_fails:
  assumes "dom OLD = set (columns sessions)" "set (map fst assignments) \<subseteq> set (columns sessions)"
  shows "sql_update sessions now others OLD assignments = Inl (NoSuchField ''updated_at'')"
proof -
  have "dom (OLD ++ map_of assignments) = set (columns sessions)"
    using assms by (auto simp: dom_map_of_conv_image_fst)
  then have "''updated_at'' \<notin> dom (OLD ++ map_of assignments)"
    by simp
  then show ?thesis
    by (simp add: sql_update_def update_updated_at_column_def)
qed

lemma sessions_session_id_constraints:
  "''session_id'' \<in> set (not_null sessions) \<and> ''session_id'' \<in> set (unique sessions)"
  by simp

text \<open>
  Claim C7 fails on the code for the \<open>sessions\<close> table. The statement
  \<open>UPDATE sessions SET user_agent = 'Firefox' WHERE id = 1\<close>, on a table that holds this
  one row, raises an error in the trigger instead of setting \<open>last_activity\<close>.
\<close>

theorem sessions_update_counterexample:
  "sql_update sessions 1700000000 []
     [''id'' \<mapsto> SqlInt 1, ''session_id'' \<mapsto> SqlText ''session_1_abc'',
      ''user_agent'' \<mapsto> SqlNull, ''ip_address'' \<mapsto> SqlNull, ''metadata'' \<mapsto> SqlNull,
      ''created_at'' \<mapsto> SqlTimestamp 1600000000, ''last_activity'' \<mapsto> SqlTimestamp 1600000000]
     [(''user_agent'', SqlText ''Firefox'')] =
   Inl (NoSuchField ''updated_at'')"
  by (simp add: sql_update_def update_updated_at_column_def)

section \<open>Asynchronous analysis: export\<close>




text \<open>A result without data: every section of the report is its fallback text.\<close>

lemma generateTXTReport_fallbacks:
  \<open>generateTXTReport ''03/11/2026, 10:15:00'' (JObj [(''plano_acao'', JNull)]) =
   Inr (nl 0 @ ''ARQV30 Enhanced v2.0 - Relat'' @ [CHR 0xC3, CHR 0xB3] @ ''rio de An'' @ [CHR 0xC3, CHR 0xA1] @ ''lise de Mercado'' @
        nl 0 @ ''========================================================'' @
        nl 0 @
        nl 0 @ ''Gerado em: 03/11/2026, 10:15:00'' @
        nl 0 @ ''Task ID: N/A'' @
        nl 0 @
        nl 0 @ ''AVATAR ULTRA-DETALHADO:'' @
        nl 0 @ ''Dados n'' @ [CHR 0xC3, CHR 0xA3] @ ''o dispon'' @ [CHR 0xC3, CHR 0xAD] @ ''veis'' @
        nl 0 @
        nl 0 @ ''INSIGHTS EXCLUSIVOS:'' @
        nl 0 @ ''Nenhum insight dispon'' @ [CHR 0xC3, CHR 0xAD] @ ''vel'' @
        nl 0 @
        nl 0 @ ''AN'' @ [CHR 0xC3, CHR 0x81] @ ''LISE DE CONCORR'' @ [CHR 0xC3, CHR 0x8A] @ ''NCIA:'' @
        nl 0 @ ''Dados n'' @ [CHR 0xC3, CHR 0xA3] @ ''o dispon'' @ [CHR 0xC3, CHR 0xAD] @ ''veis'' @
        nl 0 @
        nl 0 @ ''PLANO DE A'' @ [CHR 0xC3, CHR 0x87, CHR 0xC3, CHR 0x83] @ ''O:'' @
        nl 0 @ ''Dados n'' @ [CHR 0xC3, CHR 0xA3] @ ''o dispon'' @ [CHR 0xC3, CHR 0xAD] @ ''veis'' @
        nl 0 @
        nl 0 @ ''========================================================'' @
        nl 0 @ ''Relat'' @ [CHR 0xC3, CHR 0xB3] @ ''rio gerado pelo ARQV30 Enhanced v2.0'' @
        nl 0 @ ''Processamento: N/A'' @
        nl 0 @ ''IA Utilizada: N/A'' @
        nl 0)\<close>
  by (simp add: generateTXTReport_def formatAvatarForTXT_def formatInsightsForTXT_def
      formatCompetitionForTXT_def formatActionPlanForTXT_def Dados_nao_disponiveis_def
      opt_member_def or_else_def nl_def Let_def)

lemma generateTXTReport_throws:
  "generateTXTReport locale_now JNull = Inl TypeError"
  "generateTXTReport locale_now (JObj [(''analise_concorrencia'', JArr [JNull])]) = Inl TypeError"
  "generateTXTReport locale_now
     (JObj [(''plano_acao'', JObj [(''fase_1'', JObj [(''atividades'', JStr ''pesquisa'')])])]) =
   Inl TypeError"
  by (simp_all add: generateTXTReport_def formatAvatarForTXT_def formatCompetitionForTXT_def
      competitor_text_def formatActionPlanForTXT_def activities_or_NA_def
      Dados_nao_disponiveis_def Let_def)
























section \<open>Asynchronous analysis: status polling\<close>

text \<open>
  One analysis, started on a fresh manager: the successful \<open>POST\<close> starts one timer of
  2000 ms, each firing sends \<open>GET /api/task_status/\<close> with the task id of that \<open>POST\<close>,
  a status that is not terminal changes nothing, and a terminal status whose handler
  returns clears the timer, after which no timer fires.
\<close>

lemma first_analysis_starts_polling:
  assumes "validateForm segmento" "\<not> nullish result" "truthy (getProp result ''task_id'')"
    and "m = as_run stored [StartAsyncAnalysis segmento, PostSettled (PostResult result)]"
  shows "intervals m = [(1, 2000)] \<and> statusCheckInterval m = Some 1 \<and>
         currentTaskId m = getProp result ''task_id''"
  using assms
  by (simp add: as_run_def AsyncAnalysisManager_constructor_def loadDashboard_def
      startAsyncAnalysis_def postSettled_def startStatusMonitoring_def as_showSuccess_def Let_def)

lemma poll_uses_currentTaskId:
  assumes "handle \<in> fst ` set (intervals m)"
  shows "as_requests (intervalFires handle m) =
           as_requests m @ [Request GET (''/api/task_status/'' @ js_toString (currentTaskId m))] \<and>
         intervals (intervalFires handle m) = intervals m \<and>
         statusCheckInterval (intervalFires handle m) = statusCheckInterval m \<and>
         currentTaskId (intervalFires handle m) = currentTaskId m"
  using assms by (simp add: intervalFires_def)

lemma nonterminal_status_keeps_polling:
  assumes "getProp status ''state'' \<noteq> JStr ''SUCCESS''" "getProp status ''state'' \<noteq> JStr ''FAILURE''"
  shows "intervals (checkSettled (CheckStatus status display) m) = intervals m \<and>
         statusCheckInterval (checkSettled (CheckStatus status display) m) = statusCheckInterval m"
  using assms by (simp add: checkSettled_def Let_def)

lemma terminal_status_stops_single_timer:
  assumes "intervals m = [(handle, period)]" "statusCheckInterval m = Some handle"
    and "0 < pendingChecks m" "\<not> nullish status"
    and "getProp status ''state'' = JStr ''FAILURE'' \<or>
         getProp status ''state'' = JStr ''SUCCESS'' \<and>
         onAnalysisComplete display (getProp status ''result'')
           (m\<lparr>pendingChecks := pendingChecks m - 1\<rparr>) \<noteq> None"
  shows "intervals (checkSettled (CheckStatus status display) m) = [] \<and>
         (\<forall>h. intervalFires h (checkSettled (CheckStatus status display) m) =
               checkSettled (CheckStatus status display) m)"
proof -
  have "intervals (checkSettled (CheckStatus status display) m) = []"
    using assms
    by (auto simp: checkSettled_def Let_def stopStatusMonitoring_def onAnalysisError_def
        as_showError_def onAnalysisComplete_def as_showSuccess_def loadDashboard_def
        split: if_splits)
  then show ?thesis by (simp add: intervalFires_def)
qed

text \<open>
  Claim C1 fails on the code when a second analysis is started while the first is being
  polled. \<^verbatim>\<open>startStatusMonitoring\<close> overwrites \<open>statusCheckInterval\<close> without clearing the
  timer it held, so \<^verbatim>\<open>stopStatusMonitoring\<close> clears the second timer only: after the
  status \<open>SUCCESS\<close> has been observed the first timer is still running, and its next
  firing sends another status request (for the second task id).
\<close>

theorem polling_continues_after_terminal_status:
  "intervals (as_run None
      [StartAsyncAnalysis (Some ''fitness''),
       PostSettled (PostResult (JObj [(''task_id'', JStr ''a'')])),
       StartAsyncAnalysis (Some ''fitness''),
       PostSettled (PostResult (JObj [(''task_id'', JStr ''b'')])),
       IntervalFires 2,
       CheckSettled (CheckStatus (JObj [(''state'', JStr ''SUCCESS''), (''result'', JObj [])])
                       NoContainer)]) = [(1, 2000)] \<and>
   as_requests (as_run None
      [StartAsyncAnalysis (Some ''fitness''),
       PostSettled (PostResult (JObj [(''task_id'', JStr ''a'')])),
       StartAsyncAnalysis (Some ''fitness''),
       PostSettled (PostResult (JObj [(''task_id'', JStr ''b'')])),
       IntervalFires 2,
       CheckSettled (CheckStatus (JObj [(''state'', JStr ''SUCCESS''), (''result'', JObj [])])
                       NoContainer),
       IntervalFires 1]) =
     [Request GET ''/api/dashboard'',
      Request POST ''/api/analyze_async'',
      Request POST ''/api/analyze_async'',
      Request GET ''/api/task_status/b'',
      Request GET ''/api/dashboard'',
      Request GET ''/api/task_status/b'']"
  by (simp add: as_run_def AsyncAnalysisManager_constructor_def loadDashboard_def
      startAsyncAnalysis_def validateForm_def postSettled_def startStatusMonitoring_def
      as_showSuccess_def intervalFires_def checkSettled_def onAnalysisComplete_def
      stopStatusMonitoring_def Let_def)

text \<open>
  It fails too when the handler of \<open>SUCCESS\<close> throws: \<^verbatim>\<open>stopStatusMonitoring\<close> comes
  after \<^verbatim>\<open>onAnalysisComplete\<close>, so a result that cannot be rendered (here a status
  without one) leaves the timer running.
\<close>

lemma polling_continues_when_render_throws:
  "intervals (as_run None
      [StartAsyncAnalysis (Some ''fitness''),
       PostSettled (PostResult (JObj [(''task_id'', JStr ''a'')])),
       IntervalFires 1,
       CheckSettled (CheckStatus (JObj [(''state'', JStr ''SUCCESS'')]) Rendered)]) = [(1, 2000)]"
  by (simp add: as_run_def AsyncAnalysisManager_constructor_def loadDashboard_def
      startAsyncAnalysis_def validateForm_def postSettled_def startStatusMonitoring_def
      as_showSuccess_def intervalFires_def checkSettled_def onAnalysisComplete_def
      stopStatusMonitoring_def Let_def)

end
